theory Spec2Isabelle
  imports Main
begin

section \<open>Time\<close>

text \<open>
  A \<^verbatim>\<open>time.Time\<close> is modelled as the number of nanoseconds since the Unix epoch, read in
  one fixed-offset location (UTC): a calendar day is then a block of 24 hours, and
  \<^verbatim>\<open>AddDate(0, 0, n)\<close> moves an instant by \<open>n\<close> such blocks. Go's \<^verbatim>\<open>int\<close> is modelled as
  \<open>int\<close>; the point amounts of this program stay far from the 64-bit bounds.
\<close>

type_synonym time = int
type_synonym object_id = nat

definition nsPerHour :: int where
  "nsPerHour = 3600000000000"

definition nsPerDay :: int where
  "nsPerDay = 86400000000000"

text \<open>The day number of an instant: its calendar date (year, month, day), counted from the epoch.\<close>

definition day_of :: "time \<Rightarrow> int" where
  "day_of t = t div nsPerDay"

text \<open>\<^verbatim>\<open>time.Date(t.Year(), t.Month(), t.Day(), h, 0, 0, 0, t.Location())\<close>\<close>

definition at_hour :: "time \<Rightarrow> int \<Rightarrow> time" where
  "at_hour t h = day_of t * nsPerDay + h * nsPerHour"

text \<open>\<^verbatim>\<open>time.Date(t.Year(), t.Month(), t.Day(), 23, 59, 59, 999999999, t.Location())\<close>\<close>

definition end_of_day :: "time \<Rightarrow> time" where
  "end_of_day t = day_of t * nsPerDay + (nsPerDay - 1)"

text \<open>\<^verbatim>\<open>t.AddDate(0, 0, n)\<close>\<close>

definition AddDate :: "time \<Rightarrow> int \<Rightarrow> time" where
  "AddDate t n = t + n * nsPerDay"

text \<open>
  \<^verbatim>\<open>t.Weekday()\<close>, with Go's numbering (Sunday is 0, Saturday is 6); day 0, the first of
  January 1970, was a Thursday.
\<close>

definition Weekday :: "time \<Rightarrow> int" where
  "Weekday t = (day_of t + 4) mod 7"

definition Sunday :: int where
  "Sunday = 0"

definition Saturday :: int where
  "Saturday = 6"

text \<open>The zero \<^verbatim>\<open>time.Time\<close> (January 1, year 1, 00:00 UTC), which \<^verbatim>\<open>IsZero\<close> tests for.\<close>

definition zero_time :: time where
  "zero_time = - 62135596800000000000"

text \<open>
  \<^verbatim>\<open>time.Until(t)\<close> is \<^verbatim>\<open>t.Sub(time.Now())\<close>; a \<^verbatim>\<open>Duration\<close> is a 64-bit count of
  nanoseconds and \<^verbatim>\<open>Sub\<close> saturates at its bounds.
\<close>

definition maxDuration :: int where
  "maxDuration = 2 ^ 63 - 1"

definition minDuration :: int where
  "minDuration = - (2 ^ 63)"

definition Sub :: "time \<Rightarrow> time \<Rightarrow> int" where
  "Sub t u = (if t - u > maxDuration then maxDuration
              else if t - u < minDuration then minDuration
              else t - u)"

definition isSameDay :: "time \<Rightarrow> time \<Rightarrow> bool" where
  "isSameDay t1 t2 = (day_of t1 = day_of t2)"

section \<open>Data model\<close>

text \<open>
  The documents of \<^verbatim>\<open>internal/models\<close>, with the fields the booking engine reads or
  writes. An \<^verbatim>\<open>ObjectID\<close> is a number, \<open>0\<close> the zero id; the \<^verbatim>\<open>Reference\<close> of a point
  transaction is the id whose \<^verbatim>\<open>Hex()\<close> string it holds.
\<close>

record user =
  user_id :: object_id
  point_balance :: int
  role :: string
  updated_at :: time

record hotel =
  hotel_id :: object_id

record room =
  room_id :: object_id
  room_hotel_id :: object_id

record booking =
  booking_id :: object_id
  b_user_id :: object_id
  b_hotel_id :: object_id
  b_room_id :: object_id
  check_in :: time
  check_out :: time
  point_cost :: int
  status :: string
  created_at :: time

record date_rule =
  rule_id :: object_id
  rule_date :: time
  rule_type :: string
  rule_point_cost :: int
  rule_name :: string

record room_availability =
  avail_id :: object_id
  avail_room_id :: object_id
  avail_date :: time
  available :: bool
  user_ids :: "object_id list"

record point_transaction =
  tx_id :: object_id
  tx_user_id :: object_id
  amount :: int
  tx_type :: string
  reference :: object_id
  tx_created_at :: time

definition RoleAdmin :: string where
  "RoleAdmin = ''admin''"

text \<open>
  The database: one list of documents per collection, in insertion order.
\<close>

record db =
  users :: "user list"
  hotels :: "hotel list"
  rooms :: "room list"
  bookings :: "booking list"
  date_rules :: "date_rule list"
  room_availabilities :: "room_availability list"
  point_transactions :: "point_transaction list"

datatype error =
    UserNotFound
  | HotelNotFound
  | RoomNotFound
  | BookingNotFound
  | RoomNotInHotel
  | CheckInAfterCheckOut
  | CheckInInPast
  | RoomNotAvailable
  | InsufficientBalance
  | InsufficientBalanceToReactivate
  | Unauthorized
  | AlreadyCancelled
  | AlreadyCompleted
  | CancelWindow
  | InvalidStatus
  | InvalidDateRule
  | DuplicateKey

section \<open>Store operations\<close>

text \<open>
  \<^verbatim>\<open>FindOne\<close> returns the first document that matches, \<^verbatim>\<open>UpdateOne\<close> changes the first
  document that matches and is no error when none does, \<^verbatim>\<open>InsertOne\<close> refuses a document
  whose \<^verbatim>\<open>_id\<close> is already in the collection. Loss of the connection to the store is
  outside the model: an operation fails only for a reason the store itself decides.
\<close>

fun update_one :: "('a \<Rightarrow> bool) \<Rightarrow> ('a \<Rightarrow> 'a) \<Rightarrow> 'a list \<Rightarrow> 'a list" where
  "update_one P f [] = []"
| "update_one P f (x # xs) = (if P x then f x # xs else x # update_one P f xs)"

definition insert_one :: "('a \<Rightarrow> object_id) \<Rightarrow> 'a \<Rightarrow> 'a list \<Rightarrow> error + 'a list" where
  "insert_one key x xs = (if key x \<in> set (map key xs) then Inl DuplicateKey else Inr (xs @ [x]))"

subsection \<open>User repository\<close>

definition user_FindByID :: "object_id \<Rightarrow> db \<Rightarrow> error + user" where
  "user_FindByID uid s =
     (case find (\<lambda>u. user_id u = uid) (users s) of
        None \<Rightarrow> Inl UserNotFound
      | Some u \<Rightarrow> Inr u)"

definition UpdatePointBalance :: "time \<Rightarrow> object_id \<Rightarrow> int \<Rightarrow> db \<Rightarrow> error option \<times> db" where
  "UpdatePointBalance now uid points s =
     (None, s\<lparr>users := update_one (\<lambda>u. user_id u = uid)
                 (\<lambda>u. u\<lparr>point_balance := point_balance u + points, updated_at := now\<rparr>)
                 (users s)\<rparr>)"

definition CreatePointTransaction :: "time \<Rightarrow> point_transaction \<Rightarrow> db \<Rightarrow> error option \<times> db" where
  "CreatePointTransaction now tx s =
     (case insert_one tx_id (tx\<lparr>tx_created_at := now\<rparr>) (point_transactions s) of
        Inl e \<Rightarrow> (Some e, s)
      | Inr txs \<Rightarrow> (None, s\<lparr>point_transactions := txs\<rparr>))"

subsection \<open>Hotel repository\<close>

definition hotel_FindByID :: "object_id \<Rightarrow> db \<Rightarrow> error + hotel" where
  "hotel_FindByID hid s =
     (case find (\<lambda>h. hotel_id h = hid) (hotels s) of
        None \<Rightarrow> Inl HotelNotFound
      | Some h \<Rightarrow> Inr h)"

definition FindRoomByID :: "object_id \<Rightarrow> db \<Rightarrow> error + room" where
  "FindRoomByID rid s =
     (case find (\<lambda>r. room_id r = rid) (rooms s) of
        None \<Rightarrow> Inl RoomNotFound
      | Some r \<Rightarrow> Inr r)"

text \<open>The documents of one room dated from the start of \<open>fromDate\<close>'s day to the end of
  \<open>toDate\<close>'s day, sorted by date.\<close>

definition FindRoomAvailabilityByDateRange ::
    "object_id \<Rightarrow> time \<Rightarrow> time \<Rightarrow> db \<Rightarrow> error + room_availability list" where
  "FindRoomAvailabilityByDateRange rid fromDate toDate s =
     Inr (sort_key avail_date
       (filter (\<lambda>a. avail_room_id a = rid \<and> at_hour fromDate 0 \<le> avail_date a
                     \<and> avail_date a \<le> end_of_day toDate)
          (room_availabilities s)))"

subsection \<open>Booking repository\<close>

definition booking_Create :: "time \<Rightarrow> object_id \<Rightarrow> booking \<Rightarrow> db \<Rightarrow> (error + booking) \<times> db" where
  "booking_Create now fresh b s =
     (let b1 = (if created_at b = zero_time then b\<lparr>created_at := now\<rparr> else b);
          b2 = (if status b1 = [] then b1\<lparr>status := ''confirmed''\<rparr> else b1);
          b3 = (if booking_id b2 = 0 then b2\<lparr>booking_id := fresh\<rparr> else b2)
      in case insert_one booking_id b3 (bookings s) of
           Inl e \<Rightarrow> (Inl e, s)
         | Inr bs \<Rightarrow> (Inr b3, s\<lparr>bookings := bs\<rparr>))"

definition booking_FindByID :: "object_id \<Rightarrow> db \<Rightarrow> error + booking" where
  "booking_FindByID bid s =
     (case find (\<lambda>b. booking_id b = bid) (bookings s) of
        None \<Rightarrow> Inl BookingNotFound
      | Some b \<Rightarrow> Inr b)"

definition UpdateStatus :: "object_id \<Rightarrow> string \<Rightarrow> db \<Rightarrow> error option \<times> db" where
  "UpdateStatus bid st s =
     (if st \<noteq> ''pending'' \<and> st \<noteq> ''confirmed'' \<and> st \<noteq> ''completed'' \<and> st \<noteq> ''cancelled''
      then (Some InvalidStatus, s)
      else (None, s\<lparr>bookings := update_one (\<lambda>b. booking_id b = bid) (\<lambda>b. b\<lparr>status := st\<rparr>)
                                   (bookings s)\<rparr>))"

text \<open>The room is free when no booking of it that is not cancelled starts before
  \<open>checkOut\<close> and ends after \<open>checkIn\<close>.\<close>

definition CheckRoomAvailability :: "object_id \<Rightarrow> time \<Rightarrow> time \<Rightarrow> db \<Rightarrow> error + bool" where
  "CheckRoomAvailability rid checkIn checkOut s =
     Inr (length (filter (\<lambda>b. b_room_id b = rid \<and> status b \<noteq> ''cancelled''
                            \<and> check_in b < checkOut \<and> check_out b > checkIn)
                    (bookings s)) = 0)"

subsection \<open>Date repository\<close>

definition FindDateRules :: "time \<Rightarrow> time \<Rightarrow> db \<Rightarrow> error + date_rule list" where
  "FindDateRules startDate endDate s =
     Inr (sort_key rule_date
       (filter (\<lambda>r. at_hour startDate 0 \<le> rule_date r \<and> rule_date r \<le> end_of_day endDate)
          (date_rules s)))"

definition GetPointCostForDate :: "time \<Rightarrow> db \<Rightarrow> error + int" where
  "GetPointCostForDate date s =
     (case find (\<lambda>r. at_hour date 0 \<le> rule_date r \<and> rule_date r \<le> end_of_day date)
             (date_rules s) of
        Some rule \<Rightarrow> Inr (rule_point_cost rule)
      | None \<Rightarrow>
          if Weekday date = Saturday \<or> Weekday date = Sunday then Inr 2
          else Inr 1)"

definition CreateDateRule :: "date_rule \<Rightarrow> db \<Rightarrow> error option \<times> db" where
  "CreateDateRule rule s =
     (case insert_one rule_id rule (date_rules s) of
        Inl e \<Rightarrow> (Some e, s)
      | Inr rs \<Rightarrow> (None, s\<lparr>date_rules := rs\<rparr>))"

definition UpdateDateRule :: "date_rule \<Rightarrow> db \<Rightarrow> error option \<times> db" where
  "UpdateDateRule rule s =
     (None, s\<lparr>date_rules := update_one (\<lambda>r. rule_id r = rule_id rule)
                 (\<lambda>r. r\<lparr>rule_type := rule_type rule, rule_point_cost := rule_point_cost rule,
                        rule_name := rule_name rule\<rparr>)
                 (date_rules s)\<rparr>)"

section \<open>Date service\<close>

definition SetSpecialDate :: "object_id \<Rightarrow> date_rule \<Rightarrow> db \<Rightarrow> error option \<times> db" where
  "SetSpecialDate newId rule s =
     (if rule_date rule = zero_time \<or> rule_type rule = [] \<or> rule_point_cost rule \<le> 0
         \<or> rule_point_cost rule > 3
      then (Some InvalidDateRule, s)
      else
        let rule1 = rule\<lparr>rule_date := at_hour (rule_date rule) 0\<rparr>;
            rule2 = (if rule_id rule1 = 0 then rule1\<lparr>rule_id := newId\<rparr> else rule1);
            start = rule_date rule2;
            end' = end_of_day start
        in case FindDateRules start end' s of
             Inl e \<Rightarrow> (Some e, s)
           | Inr existingRules \<Rightarrow>
               (case existingRules of
                  r0 # _ \<Rightarrow> UpdateDateRule (rule2\<lparr>rule_id := rule_id r0\<rparr>) s
                | [] \<Rightarrow> CreateDateRule rule2 s))"

section \<open>Booking service\<close>

text \<open>The loop of \<^verbatim>\<open>CalculatePointCost\<close> over the days from \<open>d\<close> up to, not including,
  \<open>endDate\<close>.\<close>

function sum_days :: "db \<Rightarrow> time \<Rightarrow> time \<Rightarrow> int \<Rightarrow> error + int" where
  "sum_days s d endDate totalPoints =
     (if d < endDate
      then (case GetPointCostForDate d s of
              Inl e \<Rightarrow> Inl e
            | Inr pointCost \<Rightarrow> sum_days s (AddDate d 1) endDate (totalPoints + pointCost))
      else Inr totalPoints)"
  by pat_completeness auto
termination
  by (relation "measure (\<lambda>(s, d, endDate, totalPoints). nat (endDate - d))")
     (auto simp: AddDate_def nsPerDay_def)

definition CalculatePointCost :: "time \<Rightarrow> object_id \<Rightarrow> time \<Rightarrow> time \<Rightarrow> db \<Rightarrow> error + int" where
  "CalculatePointCost now roomID checkIn checkOut s =
     (let startDate = at_hour checkIn 0;
          endDate = at_hour checkOut 0
      in if startDate > endDate then Inl CheckInAfterCheckOut
         else if startDate < AddDate now (- 1) then Inl CheckInInPast
         else case FindRoomByID roomID s of
                Inl e \<Rightarrow> Inl e
              | Inr _ \<Rightarrow>
                  (case CheckRoomAvailability roomID startDate endDate s of
                     Inl e \<Rightarrow> Inl e
                   | Inr avail \<Rightarrow>
                       if \<not> avail then Inl RoomNotAvailable
                       else sum_days s startDate endDate 0))"

record DailyPointDetail =
  detail_date :: time
  detail_day_type :: string
  detail_point_cost :: int
  detail_name :: string

text \<open>The map \<^verbatim>\<open>specialDates\<close> of \<^verbatim>\<open>CalculatePointCostWithDetails\<close>: its key, the date
  printed as year-month-day, is the day number; a later rule of the list replaces an earlier
  one of the same day.\<close>

definition specialDates :: "date_rule list \<Rightarrow> (int \<rightharpoonup> date_rule)" where
  "specialDates dateRules = fold (\<lambda>rule m. m(day_of (rule_date rule) \<mapsto> rule)) dateRules Map.empty"

function details_days ::
    "(int \<rightharpoonup> date_rule) \<Rightarrow> time \<Rightarrow> time \<Rightarrow> int \<Rightarrow> DailyPointDetail list
      \<Rightarrow> int \<times> DailyPointDetail list" where
  "details_days special d endDate totalPoints dailyDetails =
     (if d < endDate
      then
        let (dayType, pointCost, name) =
              (case special (day_of d) of
                 Some rule \<Rightarrow> (rule_type rule, rule_point_cost rule, rule_name rule)
               | None \<Rightarrow>
                   if Weekday d = Saturday \<or> Weekday d = Sunday then (''weekend'', 2, [])
                   else (''regular'', 1, []))
        in details_days special (AddDate d 1) endDate (totalPoints + pointCost)
             (dailyDetails @ [\<lparr>detail_date = d, detail_day_type = dayType,
                                detail_point_cost = pointCost, detail_name = name\<rparr>])
      else (totalPoints, dailyDetails))"
  by pat_completeness auto
termination
  by (relation "measure (\<lambda>(special, d, endDate, totalPoints, dailyDetails). nat (endDate - d))")
     (auto simp: AddDate_def nsPerDay_def)

definition CalculatePointCostWithDetails ::
    "time \<Rightarrow> object_id \<Rightarrow> time \<Rightarrow> time \<Rightarrow> db \<Rightarrow> error + (int \<times> DailyPointDetail list)" where
  "CalculatePointCostWithDetails now roomID checkIn checkOut s =
     (let startDate = at_hour checkIn 0;
          endDate = at_hour checkOut 0
      in if startDate > endDate then Inl CheckInAfterCheckOut
         else if startDate < AddDate now (- 1) then Inl CheckInInPast
         else case FindRoomByID roomID s of
                Inl e \<Rightarrow> Inl e
              | Inr _ \<Rightarrow>
                  (case CheckRoomAvailability roomID startDate endDate s of
                     Inl e \<Rightarrow> Inl e
                   | Inr avail \<Rightarrow>
                       if \<not> avail then Inl RoomNotAvailable
                       else (case FindDateRules startDate endDate s of
                               Inl e \<Rightarrow> Inl e
                             | Inr dateRules \<Rightarrow>
                                 Inr (details_days (specialDates dateRules) startDate endDate 0 []))))"

text \<open>
  \<^verbatim>\<open>CreateBooking\<close>. The clock is read as one instant \<open>now\<close>; \<open>bookingID\<close> and \<open>txID\<close> are the
  results of the two calls of \<^verbatim>\<open>primitive.NewObjectID\<close> in the service, \<open>repoID\<close> that of the
  call in the repository's \<^verbatim>\<open>Create\<close>.
\<close>

definition CreateBooking ::
    "time \<Rightarrow> object_id \<Rightarrow> object_id \<Rightarrow> object_id \<Rightarrow> object_id \<Rightarrow> object_id \<Rightarrow> object_id
      \<Rightarrow> time \<Rightarrow> time \<Rightarrow> db \<Rightarrow> (error + booking) \<times> db" where
  "CreateBooking now bookingID repoID txID userID hotelID roomID checkIn checkOut s =
     (let startDate = at_hour checkIn 14;
          endDate = at_hour checkOut 12
      in case user_FindByID userID s of
           Inl _ \<Rightarrow> (Inl UserNotFound, s)
         | Inr user \<Rightarrow>
        (case hotel_FindByID hotelID s of
           Inl _ \<Rightarrow> (Inl HotelNotFound, s)
         | Inr _ \<Rightarrow>
        (case FindRoomByID roomID s of
           Inl _ \<Rightarrow> (Inl RoomNotFound, s)
         | Inr room \<Rightarrow>
        if room_hotel_id room \<noteq> hotelID then (Inl RoomNotInHotel, s)
        else
        (case CalculatePointCost now roomID startDate endDate s of
           Inl e \<Rightarrow> (Inl e, s)
         | Inr pointCost \<Rightarrow>
        if point_balance user < pointCost then (Inl InsufficientBalance, s)
        else
        (case booking_Create now repoID
                \<lparr>booking_id = bookingID, b_user_id = userID, b_hotel_id = hotelID,
                 b_room_id = roomID, check_in = startDate, check_out = endDate,
                 point_cost = pointCost, status = ''confirmed'', created_at = now\<rparr> s of
           (Inl e, s1) \<Rightarrow> (Inl e, s1)
         | (Inr booking, s1) \<Rightarrow>
        (case UpdatePointBalance now userID (- pointCost) s1 of
           (Some e, s2) \<Rightarrow> (Inl e, snd (UpdateStatus (booking_id booking) ''cancelled'' s2))
         | (None, s2) \<Rightarrow>
             (Inr booking,
              snd (CreatePointTransaction now
                     \<lparr>tx_id = txID, tx_user_id = userID, amount = - pointCost,
                      tx_type = ''booking_deduction'', reference = booking_id booking,
                      tx_created_at = now\<rparr> s2))))))))"

definition CancelBooking ::
    "time \<Rightarrow> object_id \<Rightarrow> object_id \<Rightarrow> object_id \<Rightarrow> db \<Rightarrow> error option \<times> db" where
  "CancelBooking now txID bid userID s =
     (case booking_FindByID bid s of
        Inl e \<Rightarrow> (Some e, s)
      | Inr booking \<Rightarrow>
          if b_user_id booking \<noteq> userID
             \<and> (case user_FindByID userID s of
                   Inl _ \<Rightarrow> True
                 | Inr user \<Rightarrow> role user \<noteq> RoleAdmin)
          then (Some Unauthorized, s)
          else if status booking = ''cancelled'' then (Some AlreadyCancelled, s)
          else if status booking = ''completed'' then (Some AlreadyCompleted, s)
          else if Sub (check_in booking) now < 24 * nsPerHour then (Some CancelWindow, s)
          else
            (case UpdateStatus bid ''cancelled'' s of
               (Some e, s1) \<Rightarrow> (Some e, s1)
             | (None, s1) \<Rightarrow>
            (case UpdatePointBalance now (b_user_id booking) (point_cost booking) s1 of
               (Some e, s2) \<Rightarrow> (Some e, s2)
             | (None, s2) \<Rightarrow>
                 (None,
                  snd (CreatePointTransaction now
                         \<lparr>tx_id = txID, tx_user_id = b_user_id booking,
                          amount = point_cost booking, tx_type = ''booking_refund'',
                          reference = booking_id booking, tx_created_at = now\<rparr> s2)))))"

text \<open>
  \<^verbatim>\<open>UpdateBookingStatus\<close>. Its two ledger blocks exclude each other, so at most one of their
  calls of \<^verbatim>\<open>primitive.NewObjectID\<close> happens; \<open>txID\<close> is its result.
\<close>

definition UpdateBookingStatus ::
    "time \<Rightarrow> object_id \<Rightarrow> object_id \<Rightarrow> string \<Rightarrow> db \<Rightarrow> error option \<times> db" where
  "UpdateBookingStatus now txID bid st s =
     (if st \<noteq> ''pending'' \<and> st \<noteq> ''confirmed'' \<and> st \<noteq> ''completed'' \<and> st \<noteq> ''cancelled''
      then (Some InvalidStatus, s)
      else
        case booking_FindByID bid s of
          Inl e \<Rightarrow> (Some e, s)
        | Inr booking \<Rightarrow>
        (case (if status booking = ''cancelled'' \<and> st \<noteq> ''cancelled''
               then (case user_FindByID (b_user_id booking) s of
                       Inl e \<Rightarrow> (Some e, s)
                     | Inr user \<Rightarrow>
                         if point_balance user < point_cost booking
                         then (Some InsufficientBalanceToReactivate, s)
                         else
                           (case UpdatePointBalance now (b_user_id booking)
                                   (- point_cost booking) s of
                              (Some e, s1) \<Rightarrow> (Some e, s1)
                            | (None, s1) \<Rightarrow>
                                (None,
                                 snd (CreatePointTransaction now
                                        \<lparr>tx_id = txID, tx_user_id = b_user_id booking,
                                         amount = - point_cost booking,
                                         tx_type = ''booking_reactivation'',
                                         reference = booking_id booking,
                                         tx_created_at = now\<rparr> s1))))
               else (None, s)) of
           (Some e, s2) \<Rightarrow> (Some e, s2)
         | (None, s2) \<Rightarrow>
        (case (if status booking \<noteq> ''cancelled'' \<and> st = ''cancelled''
               then (case UpdatePointBalance now (b_user_id booking) (point_cost booking) s2 of
                       (Some e, s3) \<Rightarrow> (Some e, s3)
                     | (None, s3) \<Rightarrow>
                         (None,
                          snd (CreatePointTransaction now
                                 \<lparr>tx_id = txID, tx_user_id = b_user_id booking,
                                  amount = point_cost booking, tx_type = ''booking_refund'',
                                  reference = booking_id booking,
                                  tx_created_at = now\<rparr> s3)))
               else (None, s2)) of
           (Some e, s4) \<Rightarrow> (Some e, s4)
         | (None, s4) \<Rightarrow> UpdateStatus bid st s4)))"

text \<open>The loop of \<^verbatim>\<open>checkRoomAvailabilityForUser\<close> over the days of the stay.\<close>

function check_days :: "room_availability list \<Rightarrow> object_id \<Rightarrow> time \<Rightarrow> time \<Rightarrow> bool" where
  "check_days availabilities userID d checkOut =
     (if d < checkOut
      then (case find (\<lambda>avail. isSameDay (avail_date avail) d) availabilities of
              None \<Rightarrow> check_days availabilities userID (AddDate d 1) checkOut
            | Some dayAvailability \<Rightarrow>
                if \<not> available dayAvailability then False
                else if length (user_ids dayAvailability) > 0
                        \<and> userID \<notin> set (user_ids dayAvailability) then False
                else check_days availabilities userID (AddDate d 1) checkOut)
      else True)"
  by pat_completeness auto
termination
  by (relation "measure (\<lambda>(availabilities, userID, d, checkOut). nat (checkOut - d))")
     (auto simp: AddDate_def nsPerDay_def)

definition checkRoomAvailabilityForUser ::
    "object_id \<Rightarrow> object_id \<Rightarrow> time \<Rightarrow> time \<Rightarrow> db \<Rightarrow> error + bool" where
  "checkRoomAvailabilityForUser roomID userID checkIn checkOut s =
     (case CheckRoomAvailability roomID checkIn checkOut s of
        Inl e \<Rightarrow> Inl e
      | Inr avail \<Rightarrow>
          if \<not> avail then Inr False
          else (case FindRoomAvailabilityByDateRange roomID checkIn checkOut s of
                  Inl e \<Rightarrow> Inl e
                | Inr availabilities \<Rightarrow>
                    if length availabilities = 0 then Inr True
                    else Inr (check_days availabilities userID checkIn checkOut)))"

section \<open>The specification's cost of a day\<close>

text \<open>
  The cost, type and name of day number \<open>k\<close> as the specification words them: those of the rule
  of that calendar day when there is one, else 2 and weekend on a Saturday or Sunday, else 1
  and regular. It is compared with what the code computes.
\<close>

definition spec_costForDate :: "date_rule list \<Rightarrow> int \<Rightarrow> int \<times> string \<times> string" where
  "spec_costForDate rules k =
     (case find (\<lambda>r. day_of (rule_date r) = k) rules of
        Some r \<Rightarrow> (rule_point_cost r, rule_type r, rule_name r)
      | None \<Rightarrow> if (k + 4) mod 7 = 6 \<or> (k + 4) mod 7 = 0 then (2, ''weekend'', [])
                else (1, ''regular'', []))"

definition spec_detail :: "date_rule list \<Rightarrow> int \<Rightarrow> DailyPointDetail" where
  "spec_detail rules k =
     (case spec_costForDate rules k of
        (c, ty, nm) \<Rightarrow> \<lparr>detail_date = k * nsPerDay, detail_day_type = ty,
                        detail_point_cost = c, detail_name = nm\<rparr>)"

section \<open>Rules of a day\<close>

text \<open>The property that no two date rules share a calendar day.\<close>

definition one_rule_per_day :: "db \<Rightarrow> bool" where
  "one_rule_per_day s = distinct (map (\<lambda>r. day_of (rule_date r)) (date_rules s))"

text \<open>The data that \<^verbatim>\<open>SetSpecialDate\<close> accepts.\<close>

definition valid_rule :: "date_rule \<Rightarrow> bool" where
  "valid_rule rule \<longleftrightarrow>
     rule_date rule \<noteq> zero_time \<and> rule_type rule \<noteq> [] \<and> 0 < rule_point_cost rule
     \<and> rule_point_cost rule \<le> 3"

text \<open>The new rule as \<^verbatim>\<open>SetSpecialDate\<close> stores it: the date at midnight, and the id drawn
  when the rule came without one.\<close>

definition stored_rule :: "object_id \<Rightarrow> date_rule \<Rightarrow> date_rule" where
  "stored_rule newId rule =
     rule\<lparr>rule_date := at_hour (rule_date rule) 0,
          rule_id := (if rule_id rule = 0 then newId else rule_id rule)\<rparr>"

section \<open>Example databases\<close>

text \<open>Three users (user 2 an admin), one hotel with one room, and one date rule: day
  20447, the 25th of December 2025, a Thursday, is a holiday of cost 3.\<close>

definition example_db :: db where
  "example_db =
     \<lparr>users = [\<lparr>user_id = 1, point_balance = 10, role = ''user'', updated_at = 0\<rparr>,
               \<lparr>user_id = 2, point_balance = 0, role = ''admin'', updated_at = 0\<rparr>,
               \<lparr>user_id = 3, point_balance = 1, role = ''user'', updated_at = 0\<rparr>],
      hotels = [\<lparr>hotel_id = 1\<rparr>],
      rooms = [\<lparr>room_id = 1, room_hotel_id = 1\<rparr>],
      bookings = [],
      date_rules = [\<lparr>rule_id = 1, rule_date = 20447 * nsPerDay, rule_type = ''holiday'',
                     rule_point_cost = 3, rule_name = ''Natal''\<rparr>],
      room_availabilities = [],
      point_transactions = []\<rparr>"

text \<open>The example database after user 1 booked room 1 for the night of day 20446.\<close>

definition booked_db :: db where
  "booked_db =
     example_db\<lparr>bookings :=
       [\<lparr>booking_id = 1, b_user_id = 1, b_hotel_id = 1, b_room_id = 1,
         check_in = 20446 * nsPerDay + 14 * nsPerHour,
         check_out = 20447 * nsPerDay + 12 * nsPerHour,
         point_cost = 1, status = ''confirmed'', created_at = 20440 * nsPerDay\<rparr>]\<rparr>"

text \<open>The example database with two cancelled bookings: one of user 1 that cost 1 point,
  one of user 3 (whose balance is 1) that cost 2 points.\<close>

definition cancelled_db :: db where
  "cancelled_db =
     example_db\<lparr>bookings :=
       [\<lparr>booking_id = 1, b_user_id = 1, b_hotel_id = 1, b_room_id = 1,
         check_in = 20446 * nsPerDay + 14 * nsPerHour,
         check_out = 20447 * nsPerDay + 12 * nsPerHour,
         point_cost = 1, status = ''cancelled'', created_at = 20440 * nsPerDay\<rparr>,
        \<lparr>booking_id = 2, b_user_id = 3, b_hotel_id = 1, b_room_id = 1,
         check_in = 20448 * nsPerDay + 14 * nsPerHour,
         check_out = 20450 * nsPerDay + 12 * nsPerHour,
         point_cost = 2, status = ''cancelled'', created_at = 20440 * nsPerDay\<rparr>]\<rparr>"

text \<open>The example database with room 1 marked not available on day 20447.\<close>

definition blocked_db :: db where
  "blocked_db =
     example_db\<lparr>room_availabilities :=
       [\<lparr>avail_id = 1, avail_room_id = 1, avail_date = 20447 * nsPerDay,
         available = False, user_ids = []\<rparr>]\<rparr>"

declare sum_days.simps [simp del] details_days.simps [simp del] check_days.simps [simp del]

section \<open>Auxiliary facts\<close>

lemma nsPerDay_pos: "0 < nsPerDay" by (simp add: nsPerDay_def)

lemma day_of_at_hour0 [simp]: "day_of (at_hour t 0) = day_of t"
  using nsPerDay_pos by (simp add: day_of_def at_hour_def)

lemma at_hour0_eq: "at_hour t 0 = day_of t * nsPerDay"
  by (simp add: at_hour_def)

lemma in_day_iff:
  "(at_hour d 0 \<le> x \<and> x \<le> end_of_day d) \<longleftrightarrow> day_of x = day_of d"
  unfolding at_hour_def end_of_day_def day_of_def nsPerDay_def by auto

lemma day_of_mult [simp]: "day_of (k * nsPerDay) = k"
  by (simp add: day_of_def nsPerDay_def)

lemma GetPointCostForDate_spec:
  "GetPointCostForDate d s = Inr (fst (spec_costForDate (date_rules s) (day_of d)))"
  by (simp add: GetPointCostForDate_def spec_costForDate_def in_day_iff Weekday_def
      Saturday_def Sunday_def split: option.splits)

lemma int_range_split: "k < m \<Longrightarrow> {k..<m::int} = insert k {k + 1..<m}"
  by auto

lemma sum_days_eq:
  "sum_days s (k * nsPerDay) (m * nsPerDay) t =
     Inr (t + (\<Sum>i = k..<m. fst (spec_costForDate (date_rules s) i)))"
proof (induction "nat (m - k)" arbitrary: k t)
  case 0
  then have "\<not> k * nsPerDay < m * nsPerDay" using nsPerDay_pos by simp
  moreover have "{k..<m} = {}" using 0 by simp
  ultimately show ?case by (subst sum_days.simps) simp
next
  case (Suc n)
  then have km: "k < m" by simp
  then have lt: "k * nsPerDay < m * nsPerDay" using nsPerDay_pos by simp
  have nxt: "AddDate (k * nsPerDay) 1 = (k + 1) * nsPerDay"
    by (simp add: AddDate_def algebra_simps)
  have n: "n = nat (m - (k + 1))" using Suc.hyps(2) by simp
  have ih: "sum_days s ((k + 1) * nsPerDay) (m * nsPerDay) t' =
     Inr (t' + (\<Sum>i = k + 1..<m. fst (spec_costForDate (date_rules s) i)))" for t'
    using Suc.hyps(1) [OF n] .
  have "sum_days s (k * nsPerDay) (m * nsPerDay) t =
        sum_days s ((k + 1) * nsPerDay) (m * nsPerDay)
          (t + fst (spec_costForDate (date_rules s) k))"
    using lt by (subst sum_days.simps) (simp add: GetPointCostForDate_spec nxt)
  also have "\<dots> = Inr (t + (\<Sum>i = k..<m. fst (spec_costForDate (date_rules s) i)))"
    using km by (simp add: ih int_range_split)
  finally show ?case .
qed


lemma find_None_iff2: "find P xs = None \<longleftrightarrow> (\<forall>x\<in>set xs. \<not> P x)"
  by (induction xs) auto

lemma find_unique:
  "distinct (map g xs) \<Longrightarrow> r \<in> set xs \<Longrightarrow> g r = k \<Longrightarrow> find (\<lambda>x. g x = k) xs = Some r"
  by (induction xs) (auto simp: image_iff)

lemma fold_upd_find:
  "distinct (map g ys) \<Longrightarrow>
   fold (\<lambda>r m. m(g r \<mapsto> r)) ys m k =
     (case find (\<lambda>r. g r = k) ys of Some r \<Rightarrow> Some r | None \<Rightarrow> m k)"
proof (induction ys arbitrary: m)
  case Nil
  then show ?case by simp
next
  case (Cons y ys)
  show ?case
  proof (cases "g y = k")
    case True
    with Cons.prems have "find (\<lambda>r. g r = k) ys = None"
      by (auto simp: find_None_iff2 image_iff)
    with True Cons show ?thesis by simp
  next
    case False
    with Cons show ?thesis by simp
  qed
qed

lemma specialDates_find:
  assumes d: "distinct (map (\<lambda>r. day_of (rule_date r)) rules)"
    and k: "day_of a \<le> k" "k \<le> day_of b"
  shows "specialDates
           (sort_key rule_date
              (filter (\<lambda>r. at_hour a 0 \<le> rule_date r \<and> rule_date r \<le> end_of_day b) rules)) k
         = find (\<lambda>r. day_of (rule_date r) = k) rules"
proof -
  let ?g = "\<lambda>r. day_of (rule_date r)"
  let ?Q = "\<lambda>r. at_hour a 0 \<le> rule_date r \<and> rule_date r \<le> end_of_day b"
  let ?ys = "sort_key rule_date (filter ?Q rules)"
  have Q: "?Q r" if "?g r = k" for r
    using that k unfolding at_hour_def end_of_day_def day_of_def nsPerDay_def by auto
  have dys: "distinct (map ?g ?ys)"
    using d by (simp add: distinct_map inj_on_def)
  have sys: "set ?ys = {r \<in> set rules. ?Q r}" by auto
  have "find (\<lambda>r. ?g r = k) ?ys = find (\<lambda>r. ?g r = k) rules"
  proof (cases "find (\<lambda>r. ?g r = k) rules")
    case None
    then have "\<forall>r\<in>set ?ys. ?g r \<noteq> k" by (auto simp: find_None_iff2)
    then have "find (\<lambda>r. ?g r = k) ?ys = None" unfolding find_None_iff2 by blast
    with None show ?thesis by simp
  next
    case (Some r)
    then have r: "r \<in> set rules" "?g r = k"
      by (auto simp: find_Some_iff)
    then have "r \<in> set ?ys" using Q by simp
    from find_unique [OF dys this r(2)] Some show ?thesis by simp
  qed
  moreover have "specialDates ?ys k =
      (case find (\<lambda>r. ?g r = k) ?ys of Some r \<Rightarrow> Some r | None \<Rightarrow> None)"
    unfolding specialDates_def using fold_upd_find [OF dys, of Map.empty k] by simp
  ultimately show ?thesis by (simp split: option.splits)
qed

lemma details_days_eq:
  assumes sp: "\<And>i. k \<le> i \<Longrightarrow> i < m \<Longrightarrow> sp i = find (\<lambda>r. day_of (rule_date r) = i) rules"
  shows "details_days sp (k * nsPerDay) (m * nsPerDay) t ds =
     (t + (\<Sum>i = k..<m. fst (spec_costForDate rules i)),
      ds @ map (spec_detail rules) [k..m - 1])"
  using sp
proof (induction "nat (m - k)" arbitrary: k t ds)
  case 0
  then have "\<not> k * nsPerDay < m * nsPerDay" using nsPerDay_pos by simp
  moreover have "{k..<m} = {}" "[k..m - 1] = []" using 0 by simp_all
  ultimately show ?case by (subst details_days.simps) simp
next
  case (Suc n)
  then have km: "k < m" by simp
  then have lt: "k * nsPerDay < m * nsPerDay" using nsPerDay_pos by simp
  have nxt: "AddDate (k * nsPerDay) 1 = (k + 1) * nsPerDay"
    by (simp add: AddDate_def algebra_simps)
  have n: "n = nat (m - (k + 1))" using Suc.hyps(2) by simp
  have ih: "details_days sp ((k + 1) * nsPerDay) (m * nsPerDay) t' ds' =
     (t' + (\<Sum>i = k + 1..<m. fst (spec_costForDate rules i)),
      ds' @ map (spec_detail rules) [k + 1..m - 1])" for t' ds'
    using Suc.hyps(1) [OF n] Suc.prems by simp
  have spk: "sp k = find (\<lambda>r. day_of (rule_date r) = k) rules"
    using Suc.prems km by simp
  have up: "[k..m - 1] = k # [k + 1..m - 1]"
    using km by (simp add: upto_rec1)
  have "details_days sp (k * nsPerDay) (m * nsPerDay) t ds =
        details_days sp ((k + 1) * nsPerDay) (m * nsPerDay)
          (t + fst (spec_costForDate rules k)) (ds @ [spec_detail rules k])"
    using lt
    by (subst details_days.simps)
       (simp add: nxt spk spec_costForDate_def spec_detail_def Weekday_def Saturday_def
          Sunday_def split: option.splits)
  also have "\<dots> = (t + (\<Sum>i = k..<m. fst (spec_costForDate rules i)),
      ds @ map (spec_detail rules) [k..m - 1])"
    using km by (simp add: ih int_range_split up)
  finally show ?case .
qed

lemma sum_days_Inr: "\<exists>c. sum_days s (at_hour a 0) (at_hour b 0) t = Inr c"
  by (simp add: at_hour0_eq sum_days_eq)

lemma CalculatePointCost_in_past_iff:
  "CalculatePointCost now roomID checkIn checkOut s = Inl CheckInInPast
     \<longleftrightarrow> day_of checkIn \<le> day_of checkOut \<and> at_hour checkIn 0 < now - nsPerDay"
proof -
  have le: "at_hour checkIn 0 > at_hour checkOut 0 \<longleftrightarrow> \<not> day_of checkIn \<le> day_of checkOut"
    using nsPerDay_pos by (auto simp: at_hour0_eq)
  obtain c where c: "sum_days s (at_hour checkIn 0) (at_hour checkOut 0) 0 = Inr c"
    using sum_days_Inr by blast
  show ?thesis
    by (auto simp: CalculatePointCost_def Let_def le c AddDate_def FindRoomByID_def
        CheckRoomAvailability_def split: option.splits)
qed

lemma day_of_at_hour:
  "0 \<le> h \<Longrightarrow> h < 24 \<Longrightarrow> day_of (at_hour t h) = day_of t"
  unfolding at_hour_def day_of_def nsPerDay_def nsPerHour_def by auto

lemma at_hour_at_hour:
  "0 \<le> h \<Longrightarrow> h < 24 \<Longrightarrow> at_hour (at_hour t h) k = at_hour t k"
  using day_of_at_hour [of h t] by (simp add: at_hour_def)

lemma CalculatePointCost_normalized:
  "CalculatePointCost now roomID (at_hour checkIn 14) (at_hour checkOut 12) s =
   CalculatePointCost now roomID checkIn checkOut s"
  by (simp add: CalculatePointCost_def at_hour_at_hour)

lemma find_update_one:
  "(\<And>x. P x \<Longrightarrow> P (f x)) \<Longrightarrow> find P (update_one P f xs) = map_option f (find P xs)"
  by (induction xs) auto

lemma map_update_one:
  "(\<And>x. g (f x) = g x) \<Longrightarrow> map g (update_one P f xs) = map g xs"
  by (induction xs) auto

lemma length_update_one [simp]: "length (update_one P f xs) = length xs"
  by (induction xs) auto

lemma update_one_append_fresh:
  "(\<And>x. x \<in> set xs \<Longrightarrow> \<not> P x) \<Longrightarrow> P y \<Longrightarrow> update_one P f (xs @ [y]) = xs @ [f y]"
  by (induction xs) auto

lemma update_one_twice:
  "(\<And>x. P x \<Longrightarrow> P (f x)) \<Longrightarrow>
     update_one P g (update_one P f xs) = update_one P (g \<circ> f) xs"
  by (induction xs) auto

lemma find_append_fresh:
  "(\<And>x. x \<in> set xs \<Longrightarrow> \<not> P x) \<Longrightarrow> P y \<Longrightarrow> find P (xs @ [y]) = Some y"
  by (induction xs) auto

lemma CreateBooking_success:
  assumes "user_FindByID userID s = Inr user"
    and "hotel_FindByID hotelID s = Inr h"
    and "FindRoomByID roomID s = Inr room"
    and "room_hotel_id room = hotelID"
    and "CalculatePointCost now roomID checkIn checkOut s = Inr cost"
    and "cost \<le> point_balance user"
    and "bookingID \<noteq> 0"
    and "bookingID \<notin> booking_id ` set (bookings s)"
    and "txID \<notin> tx_id ` set (point_transactions s)"
  shows "CreateBooking now bookingID repoID txID userID hotelID roomID checkIn checkOut s =
     (Inr \<lparr>booking_id = bookingID, b_user_id = userID, b_hotel_id = hotelID,
           b_room_id = roomID, check_in = at_hour checkIn 14, check_out = at_hour checkOut 12,
           point_cost = cost, status = ''confirmed'', created_at = now\<rparr>,
      s\<lparr>bookings := bookings s @
            [\<lparr>booking_id = bookingID, b_user_id = userID, b_hotel_id = hotelID,
              b_room_id = roomID, check_in = at_hour checkIn 14, check_out = at_hour checkOut 12,
              point_cost = cost, status = ''confirmed'', created_at = now\<rparr>],
        users := update_one (\<lambda>u. user_id u = userID)
                   (\<lambda>u. u\<lparr>point_balance := point_balance u + (- cost), updated_at := now\<rparr>)
                   (users s),
        point_transactions := point_transactions s @
            [\<lparr>tx_id = txID, tx_user_id = userID, amount = - cost,
              tx_type = ''booking_deduction'', reference = bookingID,
              tx_created_at = now\<rparr>]\<rparr>)"
  using assms
  by (simp add: CreateBooking_def Let_def CalculatePointCost_normalized booking_Create_def
      insert_one_def UpdatePointBalance_def CreatePointTransaction_def)

lemma CalculatePointCost_ok:
  assumes "day_of checkIn \<le> day_of checkOut"
    and "\<not> at_hour checkIn 0 < AddDate now (- 1)"
    and "FindRoomByID roomID s = Inr room"
    and "CheckRoomAvailability roomID (at_hour checkIn 0) (at_hour checkOut 0) s = Inr True"
  shows "CalculatePointCost now roomID checkIn checkOut s =
          Inr (\<Sum>k = day_of checkIn..<day_of checkOut. fst (spec_costForDate (date_rules s) k))"
proof -
  have "\<not> at_hour checkIn 0 > at_hour checkOut 0"
    using assms(1) nsPerDay_pos by (simp add: at_hour0_eq)
  then show ?thesis
    using assms by (simp add: CalculatePointCost_def Let_def) (simp add: at_hour0_eq sum_days_eq)
qed

lemma example_two_nights:
  "CalculatePointCost (20440 * nsPerDay + 10 * nsPerHour) 1 (20444 * nsPerDay)
     (20446 * nsPerDay) example_db = Inr 2"
proof -
  have "CalculatePointCost (20440 * nsPerDay + 10 * nsPerHour) 1 (20444 * nsPerDay)
     (20446 * nsPerDay) example_db =
     Inr (\<Sum>k = day_of (20444 * nsPerDay)..<day_of (20446 * nsPerDay).
            fst (spec_costForDate (date_rules example_db) k))"
    by (rule CalculatePointCost_ok [where room = "\<lparr>room_id = 1, room_hotel_id = 1\<rparr>"])
       (simp_all add: at_hour_def AddDate_def nsPerDay_def nsPerHour_def day_of_def
          FindRoomByID_def CheckRoomAvailability_def example_db_def)
  then show ?thesis
    by (simp add: int_range_split spec_costForDate_def example_db_def)
qed

lemma Sub_less_day:
  "Sub t u < 24 * nsPerHour \<longleftrightarrow> t - u < 24 * nsPerHour"
  by (simp add: Sub_def maxDuration_def minDuration_def nsPerHour_def)

lemma booking_FindByID_id:
  "booking_FindByID bid s = Inr b \<Longrightarrow> booking_id b = bid \<and> b \<in> set (bookings s)"
  by (auto simp: booking_FindByID_def find_Some_iff split: option.splits)

lemma CancelBooking_window:
  assumes "booking_FindByID bid s = Inr b"
    and "b_user_id b = userID \<or> (\<exists>u. user_FindByID userID s = Inr u \<and> role u = RoleAdmin)"
    and "status b \<noteq> ''cancelled''" and "status b \<noteq> ''completed''"
    and "check_in b - now < 24 * nsPerHour"
  shows "CancelBooking now txID bid userID s = (Some CancelWindow, s)"
  using assms by (auto simp: CancelBooking_def Sub_less_day)

lemma CancelBooking_ok:
  assumes "booking_FindByID bid s = Inr b"
    and "b_user_id b = userID \<or> (\<exists>u. user_FindByID userID s = Inr u \<and> role u = RoleAdmin)"
    and "status b \<noteq> ''cancelled''" and "status b \<noteq> ''completed''"
    and "24 * nsPerHour \<le> check_in b - now"
    and "txID \<notin> tx_id ` set (point_transactions s)"
  shows "CancelBooking now txID bid userID s =
     (None,
      s\<lparr>bookings := update_one (\<lambda>x. booking_id x = bid) (\<lambda>x. x\<lparr>status := ''cancelled''\<rparr>)
                      (bookings s),
        users := update_one (\<lambda>u. user_id u = b_user_id b)
                   (\<lambda>u. u\<lparr>point_balance := point_balance u + point_cost b, updated_at := now\<rparr>)
                   (users s),
        point_transactions := point_transactions s @
            [\<lparr>tx_id = txID, tx_user_id = b_user_id b, amount = point_cost b,
              tx_type = ''booking_refund'', reference = bid, tx_created_at = now\<rparr>]\<rparr>)"
proof -
  have w: "\<not> Sub (check_in b) now < 24 * nsPerHour"
    using assms(5) by (simp add: Sub_less_day)
  have id: "booking_id b = bid" using assms(1) booking_FindByID_id by blast
  show ?thesis
    using assms(1-4,6) w id
    by (auto simp: CancelBooking_def UpdateStatus_def UpdatePointBalance_def
        CreatePointTransaction_def insert_one_def)
qed

lemma UpdateBookingStatus_same_side:
  assumes "booking_FindByID bid s = Inr b"
    and "st = ''pending'' \<or> st = ''confirmed'' \<or> st = ''completed'' \<or> st = ''cancelled''"
    and "(status b = ''cancelled'') = (st = ''cancelled'')"
  shows "UpdateBookingStatus now txID bid st s =
           (None, s\<lparr>bookings := update_one (\<lambda>x. booking_id x = bid) (\<lambda>x. x\<lparr>status := st\<rparr>)
                                  (bookings s)\<rparr>)"
  using assms by (auto simp: UpdateBookingStatus_def UpdateStatus_def)

lemma UpdateBookingStatus_reactivate:
  assumes "booking_FindByID bid s = Inr b"
    and "st = ''pending'' \<or> st = ''confirmed'' \<or> st = ''completed''"
    and "status b = ''cancelled''"
    and "user_FindByID (b_user_id b) s = Inr u"
  shows "point_balance u < point_cost b \<longrightarrow>
           UpdateBookingStatus now txID bid st s = (Some InsufficientBalanceToReactivate, s)"
    and "point_cost b \<le> point_balance u \<and> txID \<notin> tx_id ` set (point_transactions s) \<longrightarrow>
           UpdateBookingStatus now txID bid st s =
             (None,
              s\<lparr>users := update_one (\<lambda>x. user_id x = b_user_id b)
                   (\<lambda>x. x\<lparr>point_balance := point_balance x + (- point_cost b),
                          updated_at := now\<rparr>) (users s),
                point_transactions := point_transactions s @
                  [\<lparr>tx_id = txID, tx_user_id = b_user_id b, amount = - point_cost b,
                    tx_type = ''booking_reactivation'', reference = booking_id b,
                    tx_created_at = now\<rparr>],
                bookings := update_one (\<lambda>x. booking_id x = bid) (\<lambda>x. x\<lparr>status := st\<rparr>)
                              (bookings s)\<rparr>)"
  using assms
  by (auto simp: UpdateBookingStatus_def UpdateStatus_def UpdatePointBalance_def
      CreatePointTransaction_def insert_one_def)

lemma UpdateBookingStatus_refund:
  assumes "booking_FindByID bid s = Inr b"
    and "status b \<noteq> ''cancelled''"
    and "txID \<notin> tx_id ` set (point_transactions s)"
  shows "UpdateBookingStatus now txID bid ''cancelled'' s =
             (None,
              s\<lparr>users := update_one (\<lambda>x. user_id x = b_user_id b)
                   (\<lambda>x. x\<lparr>point_balance := point_balance x + point_cost b,
                          updated_at := now\<rparr>) (users s),
                point_transactions := point_transactions s @
                  [\<lparr>tx_id = txID, tx_user_id = b_user_id b, amount = point_cost b,
                    tx_type = ''booking_refund'', reference = booking_id b,
                    tx_created_at = now\<rparr>],
                bookings := update_one (\<lambda>x. booking_id x = bid)
                              (\<lambda>x. x\<lparr>status := ''cancelled''\<rparr>) (bookings s)\<rparr>)"
  using assms
  by (auto simp: UpdateBookingStatus_def UpdateStatus_def UpdatePointBalance_def
      CreatePointTransaction_def insert_one_def)

lemma UpdateBookingStatus_ledger_only:
  assumes "booking_FindByID bid s = Inr b"
    and "UpdateBookingStatus now txID bid st s = (e, s')"
    and "users s' \<noteq> users s \<or> point_transactions s' \<noteq> point_transactions s"
  shows "(status b = ''cancelled'') \<noteq> (st = ''cancelled'')"
proof (rule ccontr)
  assume "\<not> (status b = ''cancelled'') \<noteq> (st = ''cancelled'')"
  then have same: "(status b = ''cancelled'') = (st = ''cancelled'')" by simp
  show False
  proof (cases "st = ''pending'' \<or> st = ''confirmed'' \<or> st = ''completed'' \<or> st = ''cancelled''")
    case True
    from UpdateBookingStatus_same_side [OF assms(1) True same, of now txID] assms(2,3)
    show False by auto
  next
    case False
    then have "UpdateBookingStatus now txID bid st s = (Some InvalidStatus, s)"
      by (simp add: UpdateBookingStatus_def)
    with assms(2,3) show False by auto
  qed
qed

lemma day_of_end_of_day [simp]: "day_of (end_of_day t) = day_of t"
  unfolding end_of_day_def day_of_def nsPerDay_def by auto

lemma FindDateRules_day:
  "FindDateRules (at_hour t 0) (end_of_day (at_hour t 0)) s =
     Inr (sort_key rule_date
            (filter (\<lambda>r. day_of (rule_date r) = day_of t) (date_rules s)))"
proof -
  have "(at_hour (at_hour t 0) 0 \<le> x \<and> x \<le> end_of_day (end_of_day (at_hour t 0)))
          \<longleftrightarrow> day_of x = day_of t" for x
    using in_day_iff [of "end_of_day (at_hour t 0)" x]
    by (simp add: at_hour0_eq)
  then show ?thesis by (simp add: FindDateRules_def)
qed

lemma filter_unique:
  "distinct (map g xs) \<Longrightarrow> r \<in> set xs \<Longrightarrow> g r = k \<Longrightarrow> filter (\<lambda>x. g x = k) xs = [r]"
proof (induction xs)
  case Nil
  then show ?case by simp
next
  case (Cons x xs)
  show ?case
  proof (cases "x = r")
    case True
    have "\<forall>y\<in>set xs. g y \<noteq> k" using Cons.prems True by (auto simp: image_iff)
    then have "filter (\<lambda>x. g x = k) xs = []" by (simp add: filter_empty_conv)
    with True Cons.prems show ?thesis by simp
  next
    case False
    with Cons have "filter (\<lambda>x. g x = k) xs = [r]" by simp
    moreover have "g x \<noteq> k" using Cons.prems False by (auto simp: image_iff)
    ultimately show ?thesis by simp
  qed
qed

lemma SetSpecialDate_invalid:
  "\<not> valid_rule rule \<Longrightarrow> SetSpecialDate newId rule s = (Some InvalidDateRule, s)"
  by (auto simp: SetSpecialDate_def valid_rule_def)

lemma SetSpecialDate_existing:
  assumes "one_rule_per_day s" and "valid_rule rule"
    and "r0 \<in> set (date_rules s)" and "day_of (rule_date r0) = day_of (rule_date rule)"
  shows "SetSpecialDate newId rule s =
     (None, s\<lparr>date_rules := update_one (\<lambda>r. rule_id r = rule_id r0)
                 (\<lambda>r. r\<lparr>rule_type := rule_type rule, rule_point_cost := rule_point_cost rule,
                        rule_name := rule_name rule\<rparr>)
                 (date_rules s)\<rparr>)"
proof -
  have f: "filter (\<lambda>r. day_of (rule_date r) = day_of (rule_date rule)) (date_rules s) = [r0]"
    using assms(1,3,4) unfolding one_rule_per_day_def by (rule filter_unique)
  show ?thesis
    using assms(2)
    by (simp add: SetSpecialDate_def valid_rule_def Let_def FindDateRules_day f
        UpdateDateRule_def)
qed

lemma SetSpecialDate_new:
  assumes "valid_rule rule"
    and "\<forall>r\<in>set (date_rules s). day_of (rule_date r) \<noteq> day_of (rule_date rule)"
  shows "SetSpecialDate newId rule s =
     (if rule_id (stored_rule newId rule) \<in> rule_id ` set (date_rules s)
      then (Some DuplicateKey, s)
      else (None, s\<lparr>date_rules := date_rules s @ [stored_rule newId rule]\<rparr>))"
proof -
  have f: "filter (\<lambda>r. day_of (rule_date r) = day_of (rule_date rule)) (date_rules s) = []"
    using assms(2) by (simp add: filter_empty_conv)
  have "SetSpecialDate newId rule s = CreateDateRule (stored_rule newId rule) s"
    using assms(1)
    by (simp add: SetSpecialDate_def valid_rule_def Let_def FindDateRules_day f
        stored_rule_def)
  then show ?thesis
    by (simp add: CreateDateRule_def insert_one_def)
qed

lemma SetSpecialDate_invariant:
  assumes "one_rule_per_day s"
  shows "one_rule_per_day (snd (SetSpecialDate newId rule s))"
proof (cases "valid_rule rule")
  case False
  then show ?thesis using assms by (simp add: SetSpecialDate_invalid)
next
  case True
  show ?thesis
  proof (cases "\<exists>r0\<in>set (date_rules s). day_of (rule_date r0) = day_of (rule_date rule)")
    case ex: True
    then obtain r0 where r0: "r0 \<in> set (date_rules s)"
      "day_of (rule_date r0) = day_of (rule_date rule)" by blast
    have "map (\<lambda>r. day_of (rule_date r))
            (update_one (\<lambda>r. rule_id r = rule_id r0)
                 (\<lambda>r. r\<lparr>rule_type := rule_type rule, rule_point_cost := rule_point_cost rule,
                        rule_name := rule_name rule\<rparr>)
                 (date_rules s))
          = map (\<lambda>r. day_of (rule_date r)) (date_rules s)"
      by (rule map_update_one) simp
    then show ?thesis
      using assms by (simp add: SetSpecialDate_existing [OF assms True r0] one_rule_per_day_def)
  next
    case nex: False
    then have n: "\<forall>r\<in>set (date_rules s). day_of (rule_date r) \<noteq> day_of (rule_date rule)"
      by blast
    have "day_of (rule_date (stored_rule newId rule)) = day_of (rule_date rule)"
      by (simp add: stored_rule_def)
    then show ?thesis
      using assms n
      by (auto simp: SetSpecialDate_new [OF True n] one_rule_per_day_def)
  qed
qed

section \<open>Claims\<close>

text \<open>
  C4. For every date the cost of the day is the point cost (and, in the detailed
  calculation, the type and name) of the rule of that calendar day when there is one, else 2
  (weekend) on a Saturday or Sunday, else 1 (regular); the cost of a valid stay is the sum of
  these over the days from the check-in day up to, not including, the check-out day, so a
  stay of one night costs the rate of its check-in day.
\<close>

theorem cost_per_day_and_range:
  "GetPointCostForDate d s = Inr (fst (spec_costForDate (date_rules s) (day_of d)))
   \<and> (day_of checkIn \<le> day_of checkOut
        \<and> \<not> at_hour checkIn 0 < AddDate now (- 1)
        \<and> FindRoomByID roomID s = Inr r
        \<and> CheckRoomAvailability roomID (at_hour checkIn 0) (at_hour checkOut 0) s = Inr True
      \<longrightarrow>
        CalculatePointCost now roomID checkIn checkOut s =
          Inr (\<Sum>k = day_of checkIn..<day_of checkOut. fst (spec_costForDate (date_rules s) k))
        \<and> (day_of checkOut = day_of checkIn + 1 \<longrightarrow>
             CalculatePointCost now roomID checkIn checkOut s = GetPointCostForDate checkIn s)
        \<and> (one_rule_per_day s \<longrightarrow>
             CalculatePointCostWithDetails now roomID checkIn checkOut s =
               Inr (\<Sum>k = day_of checkIn..<day_of checkOut. fst (spec_costForDate (date_rules s) k),
                    map (spec_detail (date_rules s)) [day_of checkIn..day_of checkOut - 1])))"
proof (intro conjI impI)
  show "GetPointCostForDate d s = Inr (fst (spec_costForDate (date_rules s) (day_of d)))"
    by (rule GetPointCostForDate_spec)
next
  assume a: "day_of checkIn \<le> day_of checkOut
        \<and> \<not> at_hour checkIn 0 < AddDate now (- 1)
        \<and> FindRoomByID roomID s = Inr r
        \<and> CheckRoomAvailability roomID (at_hour checkIn 0) (at_hour checkOut 0) s = Inr True"
  then have le: "\<not> at_hour checkIn 0 > at_hour checkOut 0"
    using nsPerDay_pos by (simp add: at_hour0_eq)
  show c: "CalculatePointCost now roomID checkIn checkOut s =
          Inr (\<Sum>k = day_of checkIn..<day_of checkOut. fst (spec_costForDate (date_rules s) k))"
    using a le by (simp add: CalculatePointCost_def Let_def) (simp add: at_hour0_eq sum_days_eq)
  {
    assume "day_of checkOut = day_of checkIn + 1"
    then show "CalculatePointCost now roomID checkIn checkOut s = GetPointCostForDate checkIn s"
      by (simp add: c GetPointCostForDate_spec int_range_split)
  }
  {
    assume "one_rule_per_day s"
    then have sp: "specialDates
           (sort_key rule_date
              (filter (\<lambda>r. at_hour (at_hour checkIn 0) 0 \<le> rule_date r
                            \<and> rule_date r \<le> end_of_day (at_hour checkOut 0)) (date_rules s))) i
         = find (\<lambda>r. day_of (rule_date r) = i) (date_rules s)"
      if "day_of checkIn \<le> i" "i < day_of checkOut" for i
      using that specialDates_find [of "date_rules s" "at_hour checkIn 0" i "at_hour checkOut 0"]
      by (simp add: one_rule_per_day_def)
    show "CalculatePointCostWithDetails now roomID checkIn checkOut s =
               Inr (\<Sum>k = day_of checkIn..<day_of checkOut. fst (spec_costForDate (date_rules s) k),
                    map (spec_detail (date_rules s)) [day_of checkIn..day_of checkOut - 1])"
      using a le
      by (simp add: CalculatePointCostWithDetails_def Let_def FindDateRules_def)
         (simp add: at_hour0_eq [of checkIn] at_hour0_eq [of checkOut]
            details_days_eq [OF sp [unfolded at_hour0_eq [of checkIn] at_hour0_eq [of checkOut]]])
  }
qed


theorem cost_per_day_and_range_witness:
  "day_of (20447 * nsPerDay) \<le> day_of (20448 * nsPerDay)
   \<and> \<not> at_hour (20447 * nsPerDay) 0 < AddDate (20440 * nsPerDay + 10 * nsPerHour) (- 1)
   \<and> FindRoomByID 1 example_db = Inr \<lparr>room_id = 1, room_hotel_id = 1\<rparr>
   \<and> CheckRoomAvailability 1 (at_hour (20447 * nsPerDay) 0) (at_hour (20448 * nsPerDay) 0)
         example_db = Inr True
   \<and> day_of (20448 * nsPerDay) = day_of (20447 * nsPerDay) + 1
   \<and> one_rule_per_day example_db
   \<and> GetPointCostForDate (20447 * nsPerDay) example_db = Inr 3
   \<and> CalculatePointCost (20440 * nsPerDay + 10 * nsPerHour) 1 (20447 * nsPerDay)
         (20448 * nsPerDay) example_db = Inr 3
   \<and> CalculatePointCostWithDetails (20440 * nsPerDay + 10 * nsPerHour) 1 (20447 * nsPerDay)
         (20448 * nsPerDay) example_db =
       Inr (3, [\<lparr>detail_date = 20447 * nsPerDay, detail_day_type = ''holiday'',
                  detail_point_cost = 3, detail_name = ''Natal''\<rparr>])"
proof -
  have h: "day_of (20447 * nsPerDay) \<le> day_of (20448 * nsPerDay)
   \<and> \<not> at_hour (20447 * nsPerDay) 0 < AddDate (20440 * nsPerDay + 10 * nsPerHour) (- 1)
   \<and> FindRoomByID 1 example_db = Inr \<lparr>room_id = 1, room_hotel_id = 1\<rparr>
   \<and> CheckRoomAvailability 1 (at_hour (20447 * nsPerDay) 0) (at_hour (20448 * nsPerDay) 0)
         example_db = Inr True"
    by (simp add: at_hour_def AddDate_def nsPerDay_def nsPerHour_def day_of_def
        FindRoomByID_def CheckRoomAvailability_def example_db_def)
  have o: "one_rule_per_day example_db"
    by (simp add: one_rule_per_day_def example_db_def)
  have sc: "spec_costForDate (date_rules example_db) 20447 = (3, ''holiday'', ''Natal'')"
    by (simp add: spec_costForDate_def example_db_def)
  show ?thesis
    using cost_per_day_and_range [of "20447 * nsPerDay" example_db "20447 * nsPerDay"
        "20448 * nsPerDay" "20440 * nsPerDay + 10 * nsPerHour" 1
        "\<lparr>room_id = 1, room_hotel_id = 1\<rparr>"] h o
    by (simp add: sc spec_detail_def int_range_split)
qed

text \<open>
  C8, as amended. \<^verbatim>\<open>CalculatePointCost\<close> returns the error of a check-in in the past exactly
  when the check-in day is not after the check-out day and midnight of the check-in day lies
  before the current instant minus 24 hours. So the error is never returned when the
  check-in day is today or later; it is returned (the check-in day not being after the
  check-out day) when the check-in day is two or more days back, and also when it is
  yesterday, unless the call is made exactly at midnight.
\<close>

theorem in_the_past_guard:
  "(CalculatePointCost now roomID checkIn checkOut s = Inl CheckInInPast
      \<longleftrightarrow> day_of checkIn \<le> day_of checkOut \<and> at_hour checkIn 0 < now - nsPerDay)
   \<and> (day_of now \<le> day_of checkIn \<longrightarrow>
        CalculatePointCost now roomID checkIn checkOut s \<noteq> Inl CheckInInPast)
   \<and> (day_of checkIn \<le> day_of checkOut \<and> day_of checkIn \<le> day_of now - 2 \<longrightarrow>
        CalculatePointCost now roomID checkIn checkOut s = Inl CheckInInPast)
   \<and> (day_of checkIn \<le> day_of checkOut \<and> day_of checkIn = day_of now - 1
        \<and> now \<noteq> at_hour now 0 \<longrightarrow>
        CalculatePointCost now roomID checkIn checkOut s = Inl CheckInInPast)"
proof -
  have a: "day_of now \<le> day_of checkIn \<Longrightarrow> \<not> at_hour checkIn 0 < now - nsPerDay"
    unfolding at_hour_def day_of_def nsPerDay_def by auto
  have b: "day_of checkIn \<le> day_of now - 2 \<Longrightarrow> at_hour checkIn 0 < now - nsPerDay"
    unfolding at_hour_def day_of_def nsPerDay_def by auto
  have c: "day_of checkIn = day_of now - 1 \<Longrightarrow> now \<noteq> at_hour now 0
            \<Longrightarrow> at_hour checkIn 0 < now - nsPerDay"
    unfolding at_hour_def day_of_def nsPerDay_def by auto
  show ?thesis
    unfolding CalculatePointCost_in_past_iff using a b c by blast
qed

theorem in_the_past_guard_counterexample:
  "day_of (20446 * nsPerDay) = day_of (20447 * nsPerDay + 10 * nsPerHour) - 1
   \<and> CalculatePointCost (20447 * nsPerDay + 10 * nsPerHour) 1 (20446 * nsPerDay)
        (20448 * nsPerDay) example_db = Inl CheckInInPast"
  by (simp add: CalculatePointCost_def at_hour_def AddDate_def day_of_def nsPerDay_def
      nsPerHour_def)

theorem in_the_past_guard_witness:
  "day_of (20447 * nsPerDay + 10 * nsPerHour) \<le> day_of (20447 * nsPerDay)
   \<and> CalculatePointCost (20447 * nsPerDay + 10 * nsPerHour) 1 (20447 * nsPerDay)
        (20448 * nsPerDay) example_db \<noteq> Inl CheckInInPast
   \<and> day_of (20445 * nsPerDay) \<le> day_of (20448 * nsPerDay)
   \<and> day_of (20445 * nsPerDay) \<le> day_of (20447 * nsPerDay + 10 * nsPerHour) - 2
   \<and> CalculatePointCost (20447 * nsPerDay + 10 * nsPerHour) 1 (20445 * nsPerDay)
        (20448 * nsPerDay) example_db = Inl CheckInInPast
   \<and> day_of (20446 * nsPerDay) = day_of (20447 * nsPerDay + 10 * nsPerHour) - 1
   \<and> 20447 * nsPerDay + 10 * nsPerHour \<noteq> at_hour (20447 * nsPerDay + 10 * nsPerHour) 0
   \<and> CalculatePointCost (20447 * nsPerDay + 10 * nsPerHour) 1 (20446 * nsPerDay)
        (20448 * nsPerDay) example_db = Inl CheckInInPast"
proof -
  have h: "day_of (20447 * nsPerDay + 10 * nsPerHour) \<le> day_of (20447 * nsPerDay)"
    "day_of (20445 * nsPerDay) \<le> day_of (20448 * nsPerDay)"
    "day_of (20445 * nsPerDay) \<le> day_of (20447 * nsPerDay + 10 * nsPerHour) - 2"
    "day_of (20446 * nsPerDay) = day_of (20447 * nsPerDay + 10 * nsPerHour) - 1"
    "20447 * nsPerDay + 10 * nsPerHour \<noteq> at_hour (20447 * nsPerDay + 10 * nsPerHour) 0"
    "day_of (20446 * nsPerDay) \<le> day_of (20448 * nsPerDay)"
    by (simp_all add: day_of_def at_hour_def nsPerDay_def nsPerHour_def)
  show ?thesis
    using h
      in_the_past_guard [of "20447 * nsPerDay + 10 * nsPerHour" 1 "20447 * nsPerDay"
        "20448 * nsPerDay" example_db]
      in_the_past_guard [of "20447 * nsPerDay + 10 * nsPerHour" 1 "20445 * nsPerDay"
        "20448 * nsPerDay" example_db]
      in_the_past_guard [of "20447 * nsPerDay + 10 * nsPerHour" 1 "20446 * nsPerDay"
        "20448 * nsPerDay" example_db]
    by blast
qed

text \<open>
  C5. When the user's point balance is strictly less than the computed cost of the
  requested stay, \<^verbatim>\<open>CreateBooking\<close> fails with the insufficient-balance error and the
  database is left as it was: the balance is unchanged, no booking is stored and no point
  transaction is recorded.
\<close>

theorem insufficient_balance_rejected:
  assumes "user_FindByID userID s = Inr user"
    and "hotel_FindByID hotelID s = Inr h"
    and "FindRoomByID roomID s = Inr room"
    and "room_hotel_id room = hotelID"
    and "CalculatePointCost now roomID checkIn checkOut s = Inr cost"
    and "point_balance user < cost"
  shows "CreateBooking now bookingID repoID txID userID hotelID roomID checkIn checkOut s =
           (Inl InsufficientBalance, s)"
  using assms
  by (simp add: CreateBooking_def Let_def CalculatePointCost_normalized)


theorem insufficient_balance_rejected_witness:
  "user_FindByID 3 example_db =
     Inr \<lparr>user_id = 3, point_balance = 1, role = ''user'', updated_at = 0\<rparr>
   \<and> hotel_FindByID 1 example_db = Inr \<lparr>hotel_id = 1\<rparr>
   \<and> FindRoomByID 1 example_db = Inr \<lparr>room_id = 1, room_hotel_id = 1\<rparr>
   \<and> CalculatePointCost (20440 * nsPerDay + 10 * nsPerHour) 1 (20444 * nsPerDay)
        (20446 * nsPerDay) example_db = Inr 2
   \<and> CreateBooking (20440 * nsPerDay + 10 * nsPerHour) 100 101 102 3 1 1 (20444 * nsPerDay)
        (20446 * nsPerDay) example_db = (Inl InsufficientBalance, example_db)"
proof -
  have h: "user_FindByID 3 example_db =
     Inr \<lparr>user_id = 3, point_balance = 1, role = ''user'', updated_at = 0\<rparr>"
    "hotel_FindByID 1 example_db = Inr \<lparr>hotel_id = 1\<rparr>"
    "FindRoomByID 1 example_db = Inr \<lparr>room_id = 1, room_hotel_id = 1\<rparr>"
    by (simp_all add: user_FindByID_def hotel_FindByID_def FindRoomByID_def example_db_def)
  show ?thesis
    using insufficient_balance_rejected [OF h(1) h(2) h(3) _ example_two_nights,
        of 100 101 102] h example_two_nights
    by simp
qed

text \<open>
  C6. For a booking that is neither cancelled nor completed, cancelled by its owner or by
  an admin: when the check-in is less than 24 hours after the current instant,
  \<^verbatim>\<open>CancelBooking\<close> fails with the cancel-window error and leaves the database as it was
  (status, balance and transactions unchanged); when the check-in is at least 24 hours away,
  it succeeds, sets the status of the booking to cancelled, adds the point cost to the balance
  of the booking's user and appends a refund transaction.
\<close>

theorem cancel_window_rule:
  assumes "booking_FindByID bid s = Inr b"
    and "b_user_id b = userID \<or> (\<exists>u. user_FindByID userID s = Inr u \<and> role u = RoleAdmin)"
    and "status b \<noteq> ''cancelled''" and "status b \<noteq> ''completed''"
    and "txID \<notin> tx_id ` set (point_transactions s)"
  shows "(check_in b - now < 24 * nsPerHour \<longrightarrow>
            CancelBooking now txID bid userID s = (Some CancelWindow, s))
       \<and> (24 * nsPerHour \<le> check_in b - now \<longrightarrow>
            (\<exists>s'. CancelBooking now txID bid userID s = (None, s')
               \<and> booking_FindByID bid s' = Inr (b\<lparr>status := ''cancelled''\<rparr>)
               \<and> (\<forall>u. user_FindByID (b_user_id b) s = Inr u \<longrightarrow>
                     user_FindByID (b_user_id b) s' =
                       Inr (u\<lparr>point_balance := point_balance u + point_cost b,
                              updated_at := now\<rparr>))
               \<and> point_transactions s' = point_transactions s @
                    [\<lparr>tx_id = txID, tx_user_id = b_user_id b, amount = point_cost b,
                      tx_type = ''booking_refund'', reference = bid, tx_created_at = now\<rparr>]))"
proof (intro conjI impI)
  assume "check_in b - now < 24 * nsPerHour"
  then show "CancelBooking now txID bid userID s = (Some CancelWindow, s)"
    using assms(1-4) by (rule CancelBooking_window [rotated 4])
next
  assume far: "24 * nsPerHour \<le> check_in b - now"
  let ?s' = "s\<lparr>bookings := update_one (\<lambda>x. booking_id x = bid) (\<lambda>x. x\<lparr>status := ''cancelled''\<rparr>)
                      (bookings s),
        users := update_one (\<lambda>u. user_id u = b_user_id b)
                   (\<lambda>u. u\<lparr>point_balance := point_balance u + point_cost b, updated_at := now\<rparr>)
                   (users s),
        point_transactions := point_transactions s @
            [\<lparr>tx_id = txID, tx_user_id = b_user_id b, amount = point_cost b,
              tx_type = ''booking_refund'', reference = bid, tx_created_at = now\<rparr>]\<rparr>"
  have c: "CancelBooking now txID bid userID s = (None, ?s')"
    using assms(1-4) far assms(5) by (rule CancelBooking_ok)
  have b: "booking_FindByID bid ?s' = Inr (b\<lparr>status := ''cancelled''\<rparr>)"
    using assms(1) by (auto simp: booking_FindByID_def find_update_one split: option.splits)
  have u: "user_FindByID (b_user_id b) ?s' =
             Inr (u\<lparr>point_balance := point_balance u + point_cost b, updated_at := now\<rparr>)"
    if "user_FindByID (b_user_id b) s = Inr u" for u
    using that by (auto simp: user_FindByID_def find_update_one split: option.splits)
  show "\<exists>s'. CancelBooking now txID bid userID s = (None, s')
               \<and> booking_FindByID bid s' = Inr (b\<lparr>status := ''cancelled''\<rparr>)
               \<and> (\<forall>u. user_FindByID (b_user_id b) s = Inr u \<longrightarrow>
                     user_FindByID (b_user_id b) s' =
                       Inr (u\<lparr>point_balance := point_balance u + point_cost b,
                              updated_at := now\<rparr>))
               \<and> point_transactions s' = point_transactions s @
                    [\<lparr>tx_id = txID, tx_user_id = b_user_id b, amount = point_cost b,
                      tx_type = ''booking_refund'', reference = bid, tx_created_at = now\<rparr>]"
    using c b u by (intro exI [of _ ?s']) simp
qed


theorem cancel_window_rule_witness:
  "CancelBooking (20446 * nsPerDay + 4 * nsPerHour) 7 1 1 booked_db
     = (Some CancelWindow, booked_db)
   \<and> (\<exists>s'. CancelBooking (20440 * nsPerDay) 7 1 2 booked_db = (None, s')
         \<and> user_FindByID 1 s' =
             Inr \<lparr>user_id = 1, point_balance = 11, role = ''user'',
                  updated_at = 20440 * nsPerDay\<rparr>
         \<and> point_transactions s' =
             [\<lparr>tx_id = 7, tx_user_id = 1, amount = 1, tx_type = ''booking_refund'',
               reference = 1, tx_created_at = 20440 * nsPerDay\<rparr>])"
proof -
  let ?b = "\<lparr>booking_id = 1, b_user_id = 1, b_hotel_id = 1, b_room_id = 1,
         check_in = 20446 * nsPerDay + 14 * nsPerHour,
         check_out = 20447 * nsPerDay + 12 * nsPerHour,
         point_cost = 1, status = ''confirmed'', created_at = 20440 * nsPerDay\<rparr>"
  have b: "booking_FindByID 1 booked_db = Inr ?b"
    by (simp add: booking_FindByID_def booked_db_def)
  have owner: "b_user_id ?b = 1 \<or> (\<exists>u. user_FindByID 1 booked_db = Inr u \<and> role u = RoleAdmin)"
    by simp
  have admin: "b_user_id ?b = 2 \<or> (\<exists>u. user_FindByID 2 booked_db = Inr u \<and> role u = RoleAdmin)"
    by (simp add: user_FindByID_def booked_db_def example_db_def RoleAdmin_def)
  have st: "status ?b \<noteq> ''cancelled''" "status ?b \<noteq> ''completed''" by simp_all
  have fr: "7 \<notin> tx_id ` set (point_transactions booked_db)"
    by (simp add: booked_db_def example_db_def)
  have near: "check_in ?b - (20446 * nsPerDay + 4 * nsPerHour) < 24 * nsPerHour"
    by (simp add: nsPerDay_def nsPerHour_def)
  have far: "24 * nsPerHour \<le> check_in ?b - 20440 * nsPerDay"
    by (simp add: nsPerDay_def nsPerHour_def)
  have u1: "user_FindByID 1 booked_db =
      Inr \<lparr>user_id = 1, point_balance = 10, role = ''user'', updated_at = 0\<rparr>"
    by (simp add: user_FindByID_def booked_db_def example_db_def)
  have t0: "point_transactions booked_db = []"
    by (simp add: booked_db_def example_db_def)
  from cancel_window_rule [OF b owner st fr, of "20446 * nsPerDay + 4 * nsPerHour"] near
  have 1: "CancelBooking (20446 * nsPerDay + 4 * nsPerHour) 7 1 1 booked_db
     = (Some CancelWindow, booked_db)" by blast
  from cancel_window_rule [OF b admin st fr, of "20440 * nsPerDay"] far
  obtain s' where s': "CancelBooking (20440 * nsPerDay) 7 1 2 booked_db = (None, s')"
    "\<forall>u. user_FindByID (b_user_id ?b) booked_db = Inr u \<longrightarrow>
         user_FindByID (b_user_id ?b) s' =
           Inr (u\<lparr>point_balance := point_balance u + point_cost ?b,
                  updated_at := 20440 * nsPerDay\<rparr>)"
    "point_transactions s' = point_transactions booked_db @
        [\<lparr>tx_id = 7, tx_user_id = b_user_id ?b, amount = point_cost ?b,
          tx_type = ''booking_refund'', reference = 1, tx_created_at = 20440 * nsPerDay\<rparr>]"
    by blast
  from s'(2) u1 have "user_FindByID 1 s' =
             Inr \<lparr>user_id = 1, point_balance = 11, role = ''user'',
                  updated_at = 20440 * nsPerDay\<rparr>" by simp
  with 1 s'(1) s'(3) t0 show ?thesis by simp
qed

text \<open>
  C10. A request of zero nights is accepted: when check-in and check-out fall on the same
  calendar day (user, hotel and room exist, the room is in the hotel, the day is not in the
  past, no booking conflicts, the balance is not negative), \<^verbatim>\<open>CalculatePointCost\<close> returns 0
  and \<^verbatim>\<open>CreateBooking\<close> stores a confirmed booking of point cost 0, changes no balance and
  appends a transaction of amount 0.
\<close>

theorem zero_night_booking_accepted:
  assumes "user_FindByID userID s = Inr user"
    and "0 \<le> point_balance user"
    and "hotel_FindByID hotelID s = Inr h"
    and "FindRoomByID roomID s = Inr room"
    and "room_hotel_id room = hotelID"
    and "day_of checkIn = day_of checkOut"
    and "\<not> at_hour checkIn 0 < AddDate now (- 1)"
    and "CheckRoomAvailability roomID (at_hour checkIn 0) (at_hour checkOut 0) s = Inr True"
    and "bookingID \<noteq> 0"
    and "bookingID \<notin> booking_id ` set (bookings s)"
    and "txID \<notin> tx_id ` set (point_transactions s)"
  shows "CalculatePointCost now roomID checkIn checkOut s = Inr 0
       \<and> CreateBooking now bookingID repoID txID userID hotelID roomID checkIn checkOut s =
          (Inr \<lparr>booking_id = bookingID, b_user_id = userID, b_hotel_id = hotelID,
                b_room_id = roomID, check_in = at_hour checkIn 14,
                check_out = at_hour checkOut 12, point_cost = 0, status = ''confirmed'',
                created_at = now\<rparr>,
           s\<lparr>bookings := bookings s @
                 [\<lparr>booking_id = bookingID, b_user_id = userID, b_hotel_id = hotelID,
                   b_room_id = roomID, check_in = at_hour checkIn 14,
                   check_out = at_hour checkOut 12, point_cost = 0, status = ''confirmed'',
                   created_at = now\<rparr>],
             users := update_one (\<lambda>u. user_id u = userID) (\<lambda>u. u\<lparr>updated_at := now\<rparr>)
                        (users s),
             point_transactions := point_transactions s @
                 [\<lparr>tx_id = txID, tx_user_id = userID, amount = 0,
                   tx_type = ''booking_deduction'', reference = bookingID,
                   tx_created_at = now\<rparr>]\<rparr>)"
proof -
  have c: "CalculatePointCost now roomID checkIn checkOut s = Inr 0"
    using CalculatePointCost_ok [OF _ assms(7) assms(4) assms(8)] assms(6) by simp
  show ?thesis
    using CreateBooking_success [OF assms(1) assms(3) assms(4) assms(5) c _ assms(9-11),
        of repoID] assms(2) c
    by simp
qed

theorem zero_night_booking_accepted_witness:
  "CalculatePointCost (20440 * nsPerDay + 10 * nsPerHour) 1 (20444 * nsPerDay)
     (20444 * nsPerDay) example_db = Inr 0
   \<and> CreateBooking (20440 * nsPerDay + 10 * nsPerHour) 100 101 102 2 1 1 (20444 * nsPerDay)
        (20444 * nsPerDay) example_db =
      (Inr \<lparr>booking_id = 100, b_user_id = 2, b_hotel_id = 1, b_room_id = 1,
            check_in = 20444 * nsPerDay + 14 * nsPerHour,
            check_out = 20444 * nsPerDay + 12 * nsPerHour, point_cost = 0,
            status = ''confirmed'', created_at = 20440 * nsPerDay + 10 * nsPerHour\<rparr>,
       example_db\<lparr>bookings :=
            [\<lparr>booking_id = 100, b_user_id = 2, b_hotel_id = 1, b_room_id = 1,
              check_in = 20444 * nsPerDay + 14 * nsPerHour,
              check_out = 20444 * nsPerDay + 12 * nsPerHour, point_cost = 0,
              status = ''confirmed'', created_at = 20440 * nsPerDay + 10 * nsPerHour\<rparr>],
          users :=
            [\<lparr>user_id = 1, point_balance = 10, role = ''user'', updated_at = 0\<rparr>,
             \<lparr>user_id = 2, point_balance = 0, role = ''admin'',
              updated_at = 20440 * nsPerDay + 10 * nsPerHour\<rparr>,
             \<lparr>user_id = 3, point_balance = 1, role = ''user'', updated_at = 0\<rparr>],
          point_transactions :=
            [\<lparr>tx_id = 102, tx_user_id = 2, amount = 0, tx_type = ''booking_deduction'',
              reference = 100, tx_created_at = 20440 * nsPerDay + 10 * nsPerHour\<rparr>]\<rparr>)"
proof -
  have h: "user_FindByID 2 example_db =
       Inr \<lparr>user_id = 2, point_balance = 0, role = ''admin'', updated_at = 0\<rparr>"
    "hotel_FindByID 1 example_db = Inr \<lparr>hotel_id = 1\<rparr>"
    "FindRoomByID 1 example_db = Inr \<lparr>room_id = 1, room_hotel_id = 1\<rparr>"
    "day_of (20444 * nsPerDay) = day_of (20444 * nsPerDay)"
    "\<not> at_hour (20444 * nsPerDay) 0 < AddDate (20440 * nsPerDay + 10 * nsPerHour) (- 1)"
    "CheckRoomAvailability 1 (at_hour (20444 * nsPerDay) 0) (at_hour (20444 * nsPerDay) 0)
       example_db = Inr True"
    "(100::nat) \<noteq> 0"
    "100 \<notin> booking_id ` set (bookings example_db)"
    "102 \<notin> tx_id ` set (point_transactions example_db)"
    by (simp_all add: user_FindByID_def hotel_FindByID_def FindRoomByID_def example_db_def
        CheckRoomAvailability_def at_hour_def AddDate_def nsPerDay_def nsPerHour_def day_of_def)
  have e: "at_hour (20444 * nsPerDay) 14 = 20444 * nsPerDay + 14 * nsPerHour"
    "at_hour (20444 * nsPerDay) 12 = 20444 * nsPerDay + 12 * nsPerHour"
    by (simp_all add: at_hour_def)
  have ex: "bookings example_db = []" "point_transactions example_db = []"
    "users example_db =
       [\<lparr>user_id = 1, point_balance = 10, role = ''user'', updated_at = 0\<rparr>,
        \<lparr>user_id = 2, point_balance = 0, role = ''admin'', updated_at = 0\<rparr>,
        \<lparr>user_id = 3, point_balance = 1, role = ''user'', updated_at = 0\<rparr>]"
    by (simp_all add: example_db_def)
  show ?thesis
    using zero_night_booking_accepted [OF h(1) _ h(2) h(3) _ h(4) h(5) h(6) h(7) h(8) h(9),
        of 101]
    by (simp add: e ex)
qed

text \<open>
  C3. Round trip. For a valid booking request (user, hotel and room exist, the room is in the
  hotel, the cost is computed and covered by the balance) whose stored check-in, 14:00 of the
  check-in day, is at least 24 hours after the instant of the cancellation, \<^verbatim>\<open>CreateBooking\<close>
  followed by \<^verbatim>\<open>CancelBooking\<close> by the owner succeeds, leaves the user's point balance at
  its value before the booking, and appends to the point transactions exactly one
  booking deduction of minus the cost and one booking refund of the cost, both with the id
  of the booking as reference.
\<close>

theorem create_then_cancel_round_trip:
  assumes "user_FindByID userID s = Inr user"
    and "hotel_FindByID hotelID s = Inr h"
    and "FindRoomByID roomID s = Inr room"
    and "room_hotel_id room = hotelID"
    and "CalculatePointCost now roomID checkIn checkOut s = Inr cost"
    and "cost \<le> point_balance user"
    and "bookingID \<noteq> 0"
    and "bookingID \<notin> booking_id ` set (bookings s)"
    and "txID \<notin> tx_id ` set (point_transactions s)"
    and "txID' \<notin> tx_id ` set (point_transactions s)"
    and "txID' \<noteq> txID"
    and "now' + 24 * nsPerHour \<le> at_hour checkIn 14"
  shows "\<exists>b s1 s2 user'.
           CreateBooking now bookingID repoID txID userID hotelID roomID checkIn checkOut s
             = (Inr b, s1)
         \<and> point_cost b = cost
         \<and> CancelBooking now' txID' (booking_id b) userID s1 = (None, s2)
         \<and> user_FindByID userID s2 = Inr user'
         \<and> point_balance user' = point_balance user
         \<and> map point_balance (users s2) = map point_balance (users s)
         \<and> point_transactions s2 = point_transactions s @
              [\<lparr>tx_id = txID, tx_user_id = userID, amount = - point_cost b,
                tx_type = ''booking_deduction'', reference = booking_id b,
                tx_created_at = now\<rparr>,
               \<lparr>tx_id = txID', tx_user_id = userID, amount = point_cost b,
                tx_type = ''booking_refund'', reference = booking_id b,
                tx_created_at = now'\<rparr>]
         \<and> booking_FindByID (booking_id b) s2 = Inr (b\<lparr>status := ''cancelled''\<rparr>)"
proof -
  let ?b = "\<lparr>booking_id = bookingID, b_user_id = userID, b_hotel_id = hotelID,
           b_room_id = roomID, check_in = at_hour checkIn 14, check_out = at_hour checkOut 12,
           point_cost = cost, status = ''confirmed'', created_at = now\<rparr>"
  let ?tx = "\<lparr>tx_id = txID, tx_user_id = userID, amount = - cost,
              tx_type = ''booking_deduction'', reference = bookingID,
              tx_created_at = now\<rparr>"
  let ?f1 = "\<lambda>u. u\<lparr>point_balance := point_balance u + (- cost), updated_at := now\<rparr>"
  let ?f2 = "\<lambda>u. u\<lparr>point_balance := point_balance u + cost, updated_at := now'\<rparr>"
  let ?P = "\<lambda>u. user_id u = userID"
  let ?s1 = "s\<lparr>bookings := bookings s @ [?b],
        users := update_one ?P ?f1 (users s),
        point_transactions := point_transactions s @ [?tx]\<rparr>"
  have cr: "CreateBooking now bookingID repoID txID userID hotelID roomID checkIn checkOut s
             = (Inr ?b, ?s1)"
    using assms(1-9) by (rule CreateBooking_success)
  have nf: "\<And>x. x \<in> set (bookings s) \<Longrightarrow> \<not> booking_id x = bookingID"
    using assms(8) by auto
  have fb: "booking_FindByID bookingID ?s1 = Inr ?b"
    using nf by (simp add: booking_FindByID_def find_append_fresh)
  have fr: "txID' \<notin> tx_id ` set (point_transactions ?s1)"
    using assms(10,11) by simp
  have far: "24 * nsPerHour \<le> check_in ?b - now'"
    using assms(12) by simp
  let ?s2 = "?s1\<lparr>bookings := update_one (\<lambda>x. booking_id x = bookingID)
                      (\<lambda>x. x\<lparr>status := ''cancelled''\<rparr>) (bookings ?s1),
        users := update_one (\<lambda>u. user_id u = b_user_id ?b)
                   (\<lambda>u. u\<lparr>point_balance := point_balance u + point_cost ?b,
                          updated_at := now'\<rparr>)
                   (users ?s1),
        point_transactions := point_transactions ?s1 @
            [\<lparr>tx_id = txID', tx_user_id = b_user_id ?b, amount = point_cost ?b,
              tx_type = ''booking_refund'', reference = bookingID, tx_created_at = now'\<rparr>]\<rparr>"
  have ca: "CancelBooking now' txID' bookingID userID ?s1 = (None, ?s2)"
    by (rule CancelBooking_ok [OF fb _ _ _ far fr]) simp_all
  have us: "users ?s2 = update_one ?P (?f2 \<circ> ?f1) (users s)"
    by (simp add: update_one_twice)
  have uf: "user_FindByID userID ?s2 = Inr ((?f2 \<circ> ?f1) user)"
  proof -
    have "find ?P (update_one ?P (?f2 \<circ> ?f1) (users s)) =
            map_option (?f2 \<circ> ?f1) (find ?P (users s))"
      by (rule find_update_one) simp
    moreover have "find ?P (users s) = Some user"
      using assms(1) by (simp add: user_FindByID_def split: option.splits)
    ultimately show ?thesis
      unfolding us user_FindByID_def by (simp del: o_apply)
  qed
  have mp: "map point_balance (users ?s2) = map point_balance (users s)"
    unfolding us by (rule map_update_one) simp
  have bf: "booking_FindByID bookingID ?s2 = Inr (?b\<lparr>status := ''cancelled''\<rparr>)"
    using nf by (simp add: booking_FindByID_def update_one_append_fresh find_append_fresh)
  have id: "booking_id ?b = bookingID" by simp
  show ?thesis
  proof (intro exI conjI)
    show "CreateBooking now bookingID repoID txID userID hotelID roomID checkIn checkOut s
             = (Inr ?b, ?s1)" by (rule cr)
    show "point_cost ?b = cost" by simp
    show "CancelBooking now' txID' (booking_id ?b) userID ?s1 = (None, ?s2)"
      unfolding id by (rule ca)
    show "user_FindByID userID ?s2 = Inr ((?f2 \<circ> ?f1) user)" by (rule uf)
    show "point_balance ((?f2 \<circ> ?f1) user) = point_balance user" by simp
    show "map point_balance (users ?s2) = map point_balance (users s)" by (rule mp)
    show "point_transactions ?s2 = point_transactions s @
              [\<lparr>tx_id = txID, tx_user_id = userID, amount = - point_cost ?b,
                tx_type = ''booking_deduction'', reference = booking_id ?b,
                tx_created_at = now\<rparr>,
               \<lparr>tx_id = txID', tx_user_id = userID, amount = point_cost ?b,
                tx_type = ''booking_refund'', reference = booking_id ?b,
                tx_created_at = now'\<rparr>]" by simp
    show "booking_FindByID (booking_id ?b) ?s2 = Inr (?b\<lparr>status := ''cancelled''\<rparr>)"
      unfolding id by (rule bf)
  qed
qed


theorem create_then_cancel_round_trip_witness:
  "\<exists>b s1 s2 user'.
      CreateBooking (20440 * nsPerDay + 10 * nsPerHour) 100 101 102 1 1 1 (20444 * nsPerDay)
        (20446 * nsPerDay) example_db = (Inr b, s1)
    \<and> point_cost b = 2
    \<and> CancelBooking (20441 * nsPerDay) 103 (booking_id b) 1 s1 = (None, s2)
    \<and> user_FindByID 1 s2 = Inr user'
    \<and> point_balance user' = 10
    \<and> point_transactions s2 =
         [\<lparr>tx_id = 102, tx_user_id = 1, amount = - 2, tx_type = ''booking_deduction'',
           reference = booking_id b, tx_created_at = 20440 * nsPerDay + 10 * nsPerHour\<rparr>,
          \<lparr>tx_id = 103, tx_user_id = 1, amount = 2, tx_type = ''booking_refund'',
           reference = booking_id b, tx_created_at = 20441 * nsPerDay\<rparr>]"
proof -
  have h: "user_FindByID 1 example_db =
       Inr \<lparr>user_id = 1, point_balance = 10, role = ''user'', updated_at = 0\<rparr>"
    "hotel_FindByID 1 example_db = Inr \<lparr>hotel_id = 1\<rparr>"
    "FindRoomByID 1 example_db = Inr \<lparr>room_id = 1, room_hotel_id = 1\<rparr>"
    "(100::nat) \<noteq> 0"
    "100 \<notin> booking_id ` set (bookings example_db)"
    "102 \<notin> tx_id ` set (point_transactions example_db)"
    "103 \<notin> tx_id ` set (point_transactions example_db)"
    "(103::nat) \<noteq> 102"
    "20441 * nsPerDay + 24 * nsPerHour \<le> at_hour (20444 * nsPerDay) 14"
    by (simp_all add: user_FindByID_def hotel_FindByID_def FindRoomByID_def example_db_def
        at_hour_def nsPerDay_def nsPerHour_def day_of_def)
  have t0: "point_transactions example_db = []" by (simp add: example_db_def)
  show ?thesis
    using create_then_cancel_round_trip [OF h(1) h(2) h(3) _ example_two_nights _
        h(4) h(5) h(6) h(7) h(8) h(9), of 101]
    by (fastforce simp: t0)
qed

text \<open>
  C7. A call of \<^verbatim>\<open>UpdateBookingStatus\<close> with a valid status in which neither the current
  nor the new status is cancelled succeeds and changes nothing but the status of that
  booking: users (so every point balance) and point transactions are as before, and the
  booking keeps its user, room, hotel, dates and point cost. Whatever the call returns,
  users or point transactions differ afterwards only when the booking leaves cancelled or
  enters it. Leaving cancelled checks the balance (error and no change when it is below the
  point cost) and then debits the point cost; entering cancelled credits it.
\<close>

theorem status_update_ledger_frame:
  assumes "booking_FindByID bid s = Inr b"
  shows "((st = ''pending'' \<or> st = ''confirmed'' \<or> st = ''completed'')
            \<and> status b \<noteq> ''cancelled'' \<longrightarrow>
            (\<exists>s'. UpdateBookingStatus now txID bid st s = (None, s')
               \<and> users s' = users s
               \<and> point_transactions s' = point_transactions s
               \<and> bookings s' = update_one (\<lambda>x. booking_id x = bid) (\<lambda>x. x\<lparr>status := st\<rparr>)
                                  (bookings s)
               \<and> booking_FindByID bid s' = Inr (b\<lparr>status := st\<rparr>)))
       \<and> (\<forall>e s'. UpdateBookingStatus now txID bid st s = (e, s')
             \<and> (users s' \<noteq> users s \<or> point_transactions s' \<noteq> point_transactions s)
             \<longrightarrow> (status b = ''cancelled'' \<and> st \<noteq> ''cancelled'')
                  \<or> (status b \<noteq> ''cancelled'' \<and> st = ''cancelled''))
       \<and> (\<forall>u. (st = ''pending'' \<or> st = ''confirmed'' \<or> st = ''completed'')
             \<and> status b = ''cancelled'' \<and> user_FindByID (b_user_id b) s = Inr u
             \<longrightarrow> (point_balance u < point_cost b \<longrightarrow>
                    UpdateBookingStatus now txID bid st s
                      = (Some InsufficientBalanceToReactivate, s))
               \<and> (point_cost b \<le> point_balance u
                     \<and> txID \<notin> tx_id ` set (point_transactions s) \<longrightarrow>
                    UpdateBookingStatus now txID bid st s =
                      (None,
                       s\<lparr>users := update_one (\<lambda>x. user_id x = b_user_id b)
                            (\<lambda>x. x\<lparr>point_balance := point_balance x + (- point_cost b),
                                   updated_at := now\<rparr>) (users s),
                         point_transactions := point_transactions s @
                           [\<lparr>tx_id = txID, tx_user_id = b_user_id b,
                             amount = - point_cost b, tx_type = ''booking_reactivation'',
                             reference = booking_id b, tx_created_at = now\<rparr>],
                         bookings := update_one (\<lambda>x. booking_id x = bid)
                                       (\<lambda>x. x\<lparr>status := st\<rparr>) (bookings s)\<rparr>)))
       \<and> (status b \<noteq> ''cancelled'' \<and> txID \<notin> tx_id ` set (point_transactions s) \<longrightarrow>
            UpdateBookingStatus now txID bid ''cancelled'' s =
              (None,
               s\<lparr>users := update_one (\<lambda>x. user_id x = b_user_id b)
                    (\<lambda>x. x\<lparr>point_balance := point_balance x + point_cost b,
                           updated_at := now\<rparr>) (users s),
                 point_transactions := point_transactions s @
                   [\<lparr>tx_id = txID, tx_user_id = b_user_id b, amount = point_cost b,
                     tx_type = ''booking_refund'', reference = booking_id b,
                     tx_created_at = now\<rparr>],
                 bookings := update_one (\<lambda>x. booking_id x = bid)
                               (\<lambda>x. x\<lparr>status := ''cancelled''\<rparr>) (bookings s)\<rparr>))"
proof (intro conjI allI impI)
  assume a: "(st = ''pending'' \<or> st = ''confirmed'' \<or> st = ''completed'')
               \<and> status b \<noteq> ''cancelled''"
  let ?s' = "s\<lparr>bookings := update_one (\<lambda>x. booking_id x = bid) (\<lambda>x. x\<lparr>status := st\<rparr>)
                                  (bookings s)\<rparr>"
  have v: "st = ''pending'' \<or> st = ''confirmed'' \<or> st = ''completed'' \<or> st = ''cancelled''"
    using a by blast
  have ne: "(status b = ''cancelled'') = (st = ''cancelled'')" using a by auto
  have r: "UpdateBookingStatus now txID bid st s = (None, ?s')"
    using assms v ne by (rule UpdateBookingStatus_same_side)
  have f: "booking_FindByID bid ?s' = Inr (b\<lparr>status := st\<rparr>)"
    using assms by (auto simp: booking_FindByID_def find_update_one split: option.splits)
  show "\<exists>s'. UpdateBookingStatus now txID bid st s = (None, s')
               \<and> users s' = users s
               \<and> point_transactions s' = point_transactions s
               \<and> bookings s' = update_one (\<lambda>x. booking_id x = bid) (\<lambda>x. x\<lparr>status := st\<rparr>)
                                  (bookings s)
               \<and> booking_FindByID bid s' = Inr (b\<lparr>status := st\<rparr>)"
    using r f by (intro exI [of _ ?s']) simp
next
  fix e s'
  assume "UpdateBookingStatus now txID bid st s = (e, s')
             \<and> (users s' \<noteq> users s \<or> point_transactions s' \<noteq> point_transactions s)"
  then have "(status b = ''cancelled'') \<noteq> (st = ''cancelled'')"
    using UpdateBookingStatus_ledger_only [OF assms] by blast
  then show "(status b = ''cancelled'' \<and> st \<noteq> ''cancelled'')
                  \<or> (status b \<noteq> ''cancelled'' \<and> st = ''cancelled'')" by blast
next
  fix u
  assume a: "(st = ''pending'' \<or> st = ''confirmed'' \<or> st = ''completed'')
             \<and> status b = ''cancelled'' \<and> user_FindByID (b_user_id b) s = Inr u"
  assume "point_balance u < point_cost b"
  then show "UpdateBookingStatus now txID bid st s = (Some InsufficientBalanceToReactivate, s)"
    using UpdateBookingStatus_reactivate(1) [OF assms, of st u now txID] a by blast
next
  fix u
  assume a: "(st = ''pending'' \<or> st = ''confirmed'' \<or> st = ''completed'')
             \<and> status b = ''cancelled'' \<and> user_FindByID (b_user_id b) s = Inr u"
  assume "point_cost b \<le> point_balance u \<and> txID \<notin> tx_id ` set (point_transactions s)"
  then show "UpdateBookingStatus now txID bid st s =
                      (None,
                       s\<lparr>users := update_one (\<lambda>x. user_id x = b_user_id b)
                            (\<lambda>x. x\<lparr>point_balance := point_balance x + (- point_cost b),
                                   updated_at := now\<rparr>) (users s),
                         point_transactions := point_transactions s @
                           [\<lparr>tx_id = txID, tx_user_id = b_user_id b,
                             amount = - point_cost b, tx_type = ''booking_reactivation'',
                             reference = booking_id b, tx_created_at = now\<rparr>],
                         bookings := update_one (\<lambda>x. booking_id x = bid)
                                       (\<lambda>x. x\<lparr>status := st\<rparr>) (bookings s)\<rparr>)"
    using UpdateBookingStatus_reactivate(2) [OF assms, of st u txID now] a by blast
next
  assume "status b \<noteq> ''cancelled'' \<and> txID \<notin> tx_id ` set (point_transactions s)"
  then show "UpdateBookingStatus now txID bid ''cancelled'' s =
              (None,
               s\<lparr>users := update_one (\<lambda>x. user_id x = b_user_id b)
                    (\<lambda>x. x\<lparr>point_balance := point_balance x + point_cost b,
                           updated_at := now\<rparr>) (users s),
                 point_transactions := point_transactions s @
                   [\<lparr>tx_id = txID, tx_user_id = b_user_id b, amount = point_cost b,
                     tx_type = ''booking_refund'', reference = booking_id b,
                     tx_created_at = now\<rparr>],
                 bookings := update_one (\<lambda>x. booking_id x = bid)
                               (\<lambda>x. x\<lparr>status := ''cancelled''\<rparr>) (bookings s)\<rparr>)"
    using UpdateBookingStatus_refund [OF assms, of txID now] by blast
qed


theorem status_update_ledger_frame_witness:
  "(\<exists>s'. UpdateBookingStatus (20441 * nsPerDay) 7 1 ''completed'' booked_db = (None, s')
        \<and> users s' = users booked_db
        \<and> point_transactions s' = point_transactions booked_db
        \<and> booking_FindByID 1 s' =
            Inr \<lparr>booking_id = 1, b_user_id = 1, b_hotel_id = 1, b_room_id = 1,
                 check_in = 20446 * nsPerDay + 14 * nsPerHour,
                 check_out = 20447 * nsPerDay + 12 * nsPerHour,
                 point_cost = 1, status = ''completed'', created_at = 20440 * nsPerDay\<rparr>)
   \<and> (\<exists>s'. UpdateBookingStatus (20441 * nsPerDay) 7 1 ''cancelled'' booked_db = (None, s')
        \<and> users s' \<noteq> users booked_db
        \<and> user_FindByID 1 s' =
            Inr \<lparr>user_id = 1, point_balance = 11, role = ''user'',
                 updated_at = 20441 * nsPerDay\<rparr>
        \<and> point_transactions s' =
            [\<lparr>tx_id = 7, tx_user_id = 1, amount = 1, tx_type = ''booking_refund'',
              reference = 1, tx_created_at = 20441 * nsPerDay\<rparr>])
   \<and> UpdateBookingStatus (20441 * nsPerDay) 7 2 ''confirmed'' cancelled_db
        = (Some InsufficientBalanceToReactivate, cancelled_db)
   \<and> (\<exists>s'. UpdateBookingStatus (20441 * nsPerDay) 7 1 ''confirmed'' cancelled_db = (None, s')
        \<and> user_FindByID 1 s' =
            Inr \<lparr>user_id = 1, point_balance = 9, role = ''user'',
                 updated_at = 20441 * nsPerDay\<rparr>
        \<and> point_transactions s' =
            [\<lparr>tx_id = 7, tx_user_id = 1, amount = - 1, tx_type = ''booking_reactivation'',
              reference = 1, tx_created_at = 20441 * nsPerDay\<rparr>])"
proof -
  let ?b = "\<lparr>booking_id = 1, b_user_id = 1, b_hotel_id = 1, b_room_id = 1,
         check_in = 20446 * nsPerDay + 14 * nsPerHour,
         check_out = 20447 * nsPerDay + 12 * nsPerHour,
         point_cost = 1, status = ''confirmed'', created_at = 20440 * nsPerDay\<rparr>"
  let ?c1 = "\<lparr>booking_id = 1, b_user_id = 1, b_hotel_id = 1, b_room_id = 1,
         check_in = 20446 * nsPerDay + 14 * nsPerHour,
         check_out = 20447 * nsPerDay + 12 * nsPerHour,
         point_cost = 1, status = ''cancelled'', created_at = 20440 * nsPerDay\<rparr>"
  let ?c2 = "\<lparr>booking_id = 2, b_user_id = 3, b_hotel_id = 1, b_room_id = 1,
         check_in = 20448 * nsPerDay + 14 * nsPerHour,
         check_out = 20450 * nsPerDay + 12 * nsPerHour,
         point_cost = 2, status = ''cancelled'', created_at = 20440 * nsPerDay\<rparr>"
  let ?u1 = "\<lparr>user_id = 1, point_balance = 10, role = ''user'', updated_at = 0\<rparr>"
  let ?u3 = "\<lparr>user_id = 3, point_balance = 1, role = ''user'', updated_at = 0\<rparr>"
  have b: "booking_FindByID 1 booked_db = Inr ?b"
    and c1: "booking_FindByID 1 cancelled_db = Inr ?c1"
    and c2: "booking_FindByID 2 cancelled_db = Inr ?c2"
    by (simp_all add: booking_FindByID_def booked_db_def cancelled_db_def)
  have u: "users booked_db = users example_db" "users cancelled_db = users example_db"
    "point_transactions booked_db = []" "point_transactions cancelled_db = []"
    "user_FindByID 1 cancelled_db = Inr ?u1" "user_FindByID 3 cancelled_db = Inr ?u3"
    "users example_db =
       [?u1, \<lparr>user_id = 2, point_balance = 0, role = ''admin'', updated_at = 0\<rparr>, ?u3]"
    by (simp_all add: booked_db_def cancelled_db_def example_db_def user_FindByID_def)
  let ?s2 = "booked_db\<lparr>users := update_one (\<lambda>x. user_id x = 1)
                    (\<lambda>x. x\<lparr>point_balance := point_balance x + 1,
                           updated_at := 20441 * nsPerDay\<rparr>) (users booked_db),
                 point_transactions := point_transactions booked_db @
                   [\<lparr>tx_id = 7, tx_user_id = 1, amount = 1,
                     tx_type = ''booking_refund'', reference = 1,
                     tx_created_at = 20441 * nsPerDay\<rparr>],
                 bookings := update_one (\<lambda>x. booking_id x = 1)
                               (\<lambda>x. x\<lparr>status := ''cancelled''\<rparr>) (bookings booked_db)\<rparr>"
  let ?s4 = "cancelled_db\<lparr>users := update_one (\<lambda>x. user_id x = 1)
                            (\<lambda>x. x\<lparr>point_balance := point_balance x + (- 1),
                                   updated_at := 20441 * nsPerDay\<rparr>) (users cancelled_db),
                         point_transactions := point_transactions cancelled_db @
                           [\<lparr>tx_id = 7, tx_user_id = 1,
                             amount = - 1, tx_type = ''booking_reactivation'',
                             reference = 1, tx_created_at = 20441 * nsPerDay\<rparr>],
                         bookings := update_one (\<lambda>x. booking_id x = 1)
                                       (\<lambda>x. x\<lparr>status := ''confirmed''\<rparr>)
                                       (bookings cancelled_db)\<rparr>"
  have 1: "\<exists>s'. UpdateBookingStatus (20441 * nsPerDay) 7 1 ''completed'' booked_db = (None, s')
        \<and> users s' = users booked_db
        \<and> point_transactions s' = point_transactions booked_db
        \<and> booking_FindByID 1 s' =
            Inr \<lparr>booking_id = 1, b_user_id = 1, b_hotel_id = 1, b_room_id = 1,
                 check_in = 20446 * nsPerDay + 14 * nsPerHour,
                 check_out = 20447 * nsPerDay + 12 * nsPerHour,
                 point_cost = 1, status = ''completed'', created_at = 20440 * nsPerDay\<rparr>"
    using status_update_ledger_frame [OF b, of "''completed''" "20441 * nsPerDay" 7]
    by simp blast
  have 2: "UpdateBookingStatus (20441 * nsPerDay) 7 1 ''cancelled'' booked_db = (None, ?s2)"
    using status_update_ledger_frame [OF b, of "''completed''" "20441 * nsPerDay" 7] u(3)
    by simp
  have w2: "\<exists>s'. UpdateBookingStatus (20441 * nsPerDay) 7 1 ''cancelled'' booked_db = (None, s')
        \<and> users s' \<noteq> users booked_db
        \<and> user_FindByID 1 s' =
            Inr \<lparr>user_id = 1, point_balance = 11, role = ''user'',
                 updated_at = 20441 * nsPerDay\<rparr>
        \<and> point_transactions s' =
            [\<lparr>tx_id = 7, tx_user_id = 1, amount = 1, tx_type = ''booking_refund'',
              reference = 1, tx_created_at = 20441 * nsPerDay\<rparr>]"
  proof (intro exI conjI)
    show "UpdateBookingStatus (20441 * nsPerDay) 7 1 ''cancelled'' booked_db = (None, ?s2)"
      by (rule 2)
    show "users ?s2 \<noteq> users booked_db" by (simp add: u)
    show "user_FindByID 1 ?s2 =
            Inr \<lparr>user_id = 1, point_balance = 11, role = ''user'',
                 updated_at = 20441 * nsPerDay\<rparr>"
      by (simp add: u user_FindByID_def)
    show "point_transactions ?s2 =
            [\<lparr>tx_id = 7, tx_user_id = 1, amount = 1, tx_type = ''booking_refund'',
              reference = 1, tx_created_at = 20441 * nsPerDay\<rparr>]"
      by (simp add: u)
  qed
  have 3: "UpdateBookingStatus (20441 * nsPerDay) 7 2 ''confirmed'' cancelled_db
        = (Some InsufficientBalanceToReactivate, cancelled_db)"
    using status_update_ledger_frame [OF c2, of "''confirmed''" "20441 * nsPerDay" 7] u(6)
    by simp
  have 4: "UpdateBookingStatus (20441 * nsPerDay) 7 1 ''confirmed'' cancelled_db = (None, ?s4)"
    using status_update_ledger_frame [OF c1, of "''confirmed''" "20441 * nsPerDay" 7] u(4,5)
    by simp
  have w4: "\<exists>s'. UpdateBookingStatus (20441 * nsPerDay) 7 1 ''confirmed'' cancelled_db = (None, s')
        \<and> user_FindByID 1 s' =
            Inr \<lparr>user_id = 1, point_balance = 9, role = ''user'',
                 updated_at = 20441 * nsPerDay\<rparr>
        \<and> point_transactions s' =
            [\<lparr>tx_id = 7, tx_user_id = 1, amount = - 1, tx_type = ''booking_reactivation'',
              reference = 1, tx_created_at = 20441 * nsPerDay\<rparr>]"
  proof (intro exI conjI)
    show "UpdateBookingStatus (20441 * nsPerDay) 7 1 ''confirmed'' cancelled_db = (None, ?s4)"
      by (rule 4)
    show "user_FindByID 1 ?s4 =
            Inr \<lparr>user_id = 1, point_balance = 9, role = ''user'',
                 updated_at = 20441 * nsPerDay\<rparr>"
      by (simp add: u user_FindByID_def)
    show "point_transactions ?s4 =
            [\<lparr>tx_id = 7, tx_user_id = 1, amount = - 1, tx_type = ''booking_reactivation'',
              reference = 1, tx_created_at = 20441 * nsPerDay\<rparr>]"
      by (simp add: u)
  qed
  show ?thesis
    by (intro conjI) (rule 1 w2 3 w4)+
qed

text \<open>
  C9. \<^verbatim>\<open>SetSpecialDate\<close> keeps the property that no two rules share a calendar day. Given
  valid rule data: when a rule of that day exists, it is updated in place (type, point cost
  and name replaced; ids, dates and the number of rules as before) and nothing is inserted;
  when none exists, exactly one rule is appended, dated midnight of that day (its id, as
  \<^verbatim>\<open>NewObjectID\<close> gives, not yet in the collection).
\<close>

theorem set_special_date_upsert:
  assumes "one_rule_per_day s"
  shows "one_rule_per_day (snd (SetSpecialDate newId rule s))
       \<and> (\<forall>r0. valid_rule rule \<and> r0 \<in> set (date_rules s)
              \<and> day_of (rule_date r0) = day_of (rule_date rule)
              \<and> distinct (map rule_id (date_rules s)) \<longrightarrow>
            (\<exists>s'. SetSpecialDate newId rule s = (None, s')
               \<and> length (date_rules s') = length (date_rules s)
               \<and> map rule_id (date_rules s') = map rule_id (date_rules s)
               \<and> map rule_date (date_rules s') = map rule_date (date_rules s)
               \<and> find (\<lambda>r. day_of (rule_date r) = day_of (rule_date rule)) (date_rules s')
                   = Some (r0\<lparr>rule_type := rule_type rule,
                               rule_point_cost := rule_point_cost rule,
                               rule_name := rule_name rule\<rparr>)
               \<and> (\<forall>r\<in>set (date_rules s). r \<noteq> r0 \<longrightarrow> r \<in> set (date_rules s'))))
       \<and> (valid_rule rule
            \<and> (\<forall>r\<in>set (date_rules s). day_of (rule_date r) \<noteq> day_of (rule_date rule))
            \<and> rule_id (stored_rule newId rule) \<notin> rule_id ` set (date_rules s) \<longrightarrow>
            SetSpecialDate newId rule s =
              (None, s\<lparr>date_rules := date_rules s @ [stored_rule newId rule]\<rparr>))"
proof (intro conjI allI impI)
  show "one_rule_per_day (snd (SetSpecialDate newId rule s))"
    using assms by (rule SetSpecialDate_invariant)
next
  fix r0
  assume a: "valid_rule rule \<and> r0 \<in> set (date_rules s)
              \<and> day_of (rule_date r0) = day_of (rule_date rule)
              \<and> distinct (map rule_id (date_rules s))"
  let ?f = "\<lambda>r. r\<lparr>rule_type := rule_type rule, rule_point_cost := rule_point_cost rule,
                        rule_name := rule_name rule\<rparr>"
  let ?rs = "update_one (\<lambda>r. rule_id r = rule_id r0) ?f (date_rules s)"
  have r: "SetSpecialDate newId rule s = (None, s\<lparr>date_rules := ?rs\<rparr>)"
    using assms a by (intro SetSpecialDate_existing) simp_all
  have ids: "map rule_id ?rs = map rule_id (date_rules s)"
    by (rule map_update_one) simp
  have dates: "map rule_date ?rs = map rule_date (date_rules s)"
    by (rule map_update_one) simp
  have upd: "\<And>xs. distinct (map rule_id xs) \<Longrightarrow> r0 \<in> set xs \<Longrightarrow>
      ?f r0 \<in> set (update_one (\<lambda>r. rule_id r = rule_id r0) ?f xs)
      \<and> (\<forall>r\<in>set xs. r \<noteq> r0 \<longrightarrow> r \<in> set (update_one (\<lambda>r. rule_id r = rule_id r0) ?f xs))"
  proof -
    fix xs :: "date_rule list"
    show "distinct (map rule_id xs) \<Longrightarrow> r0 \<in> set xs \<Longrightarrow>
      ?f r0 \<in> set (update_one (\<lambda>r. rule_id r = rule_id r0) ?f xs)
      \<and> (\<forall>r\<in>set xs. r \<noteq> r0 \<longrightarrow> r \<in> set (update_one (\<lambda>r. rule_id r = rule_id r0) ?f xs))"
      by (induction xs) (auto simp: image_iff)
  qed
  have mem: "?f r0 \<in> set ?rs" and others: "\<forall>r\<in>set (date_rules s). r \<noteq> r0 \<longrightarrow> r \<in> set ?rs"
    using upd [of "date_rules s"] a by blast+
  have d': "distinct (map (\<lambda>r. day_of (rule_date r)) ?rs)"
  proof -
    have "map (\<lambda>r. day_of (rule_date r)) ?rs = map (\<lambda>r. day_of (rule_date r)) (date_rules s)"
      by (rule map_update_one) simp
    then show ?thesis using assms by (simp add: one_rule_per_day_def)
  qed
  have fnd: "find (\<lambda>r. day_of (rule_date r) = day_of (rule_date rule)) ?rs = Some (?f r0)"
    using d' mem by (rule find_unique) (simp add: a)
  show "\<exists>s'. SetSpecialDate newId rule s = (None, s')
               \<and> length (date_rules s') = length (date_rules s)
               \<and> map rule_id (date_rules s') = map rule_id (date_rules s)
               \<and> map rule_date (date_rules s') = map rule_date (date_rules s)
               \<and> find (\<lambda>r. day_of (rule_date r) = day_of (rule_date rule)) (date_rules s')
                   = Some (?f r0)
               \<and> (\<forall>r\<in>set (date_rules s). r \<noteq> r0 \<longrightarrow> r \<in> set (date_rules s'))"
    using r ids dates fnd others by (intro exI [of _ "s\<lparr>date_rules := ?rs\<rparr>"]) simp
next
  assume "valid_rule rule
            \<and> (\<forall>r\<in>set (date_rules s). day_of (rule_date r) \<noteq> day_of (rule_date rule))
            \<and> rule_id (stored_rule newId rule) \<notin> rule_id ` set (date_rules s)"
  then show "SetSpecialDate newId rule s =
              (None, s\<lparr>date_rules := date_rules s @ [stored_rule newId rule]\<rparr>)"
    using SetSpecialDate_new [of rule s newId] by simp
qed


theorem set_special_date_upsert_witness:
  "one_rule_per_day example_db
   \<and> one_rule_per_day
        (snd (SetSpecialDate 50
           \<lparr>rule_id = 77, rule_date = 20447 * nsPerDay + 5 * nsPerHour,
            rule_type = ''regular'', rule_point_cost = 1, rule_name = []\<rparr> example_db))
   \<and> (\<exists>s'. SetSpecialDate 50
           \<lparr>rule_id = 77, rule_date = 20447 * nsPerDay + 5 * nsPerHour,
            rule_type = ''regular'', rule_point_cost = 1, rule_name = []\<rparr> example_db
           = (None, s')
        \<and> length (date_rules s') = 1
        \<and> map rule_id (date_rules s') = [1]
        \<and> find (\<lambda>r. day_of (rule_date r) = 20447) (date_rules s')
            = Some \<lparr>rule_id = 1, rule_date = 20447 * nsPerDay, rule_type = ''regular'',
                    rule_point_cost = 1, rule_name = []\<rparr>)
   \<and> SetSpecialDate 50
        \<lparr>rule_id = 0, rule_date = 20450 * nsPerDay + 5 * nsPerHour,
         rule_type = ''holiday'', rule_point_cost = 3, rule_name = ''Libur''\<rparr> example_db
       = (None,
          example_db\<lparr>date_rules :=
            [\<lparr>rule_id = 1, rule_date = 20447 * nsPerDay, rule_type = ''holiday'',
              rule_point_cost = 3, rule_name = ''Natal''\<rparr>,
             \<lparr>rule_id = 50, rule_date = 20450 * nsPerDay, rule_type = ''holiday'',
              rule_point_cost = 3, rule_name = ''Libur''\<rparr>]\<rparr>)"
proof -
  let ?r0 = "\<lparr>rule_id = 1, rule_date = 20447 * nsPerDay, rule_type = ''holiday'',
              rule_point_cost = 3, rule_name = ''Natal''\<rparr>"
  let ?u = "\<lparr>rule_id = 77, rule_date = 20447 * nsPerDay + 5 * nsPerHour,
            rule_type = ''regular'', rule_point_cost = 1, rule_name = []\<rparr>"
  let ?n = "\<lparr>rule_id = 0, rule_date = 20450 * nsPerDay + 5 * nsPerHour,
         rule_type = ''holiday'', rule_point_cost = 3, rule_name = ''Libur''\<rparr>"
  have rs: "date_rules example_db = [?r0]" by (simp add: example_db_def)
  have inv: "one_rule_per_day example_db"
    by (simp add: one_rule_per_day_def rs)
  have d: "day_of (20447 * nsPerDay + 5 * nsPerHour) = 20447"
    "day_of (20450 * nsPerDay + 5 * nsPerHour) = 20450"
    by (simp_all add: day_of_def nsPerDay_def nsPerHour_def)
  have v: "valid_rule ?u" "valid_rule ?n"
    by (simp_all add: valid_rule_def zero_time_def nsPerDay_def nsPerHour_def)
  have st: "stored_rule 50 ?n =
      \<lparr>rule_id = 50, rule_date = 20450 * nsPerDay, rule_type = ''holiday'',
       rule_point_cost = 3, rule_name = ''Libur''\<rparr>"
    by (simp add: stored_rule_def at_hour0_eq d)
  have 1: "one_rule_per_day (snd (SetSpecialDate 50 ?u example_db))"
    using set_special_date_upsert [OF inv, of 50 ?u] by blast
  have 2: "\<exists>s'. SetSpecialDate 50 ?u example_db = (None, s')
        \<and> length (date_rules s') = 1
        \<and> map rule_id (date_rules s') = [1]
        \<and> find (\<lambda>r. day_of (rule_date r) = 20447) (date_rules s')
            = Some \<lparr>rule_id = 1, rule_date = 20447 * nsPerDay, rule_type = ''regular'',
                    rule_point_cost = 1, rule_name = []\<rparr>"
  proof -
    have "valid_rule ?u \<and> ?r0 \<in> set (date_rules example_db)
              \<and> day_of (rule_date ?r0) = day_of (rule_date ?u)
              \<and> distinct (map rule_id (date_rules example_db))"
      using v(1) by (simp add: rs d)
    with set_special_date_upsert [OF inv, of 50 ?u]
    obtain s' where "SetSpecialDate 50 ?u example_db = (None, s')"
      "length (date_rules s') = length (date_rules example_db)"
      "map rule_id (date_rules s') = map rule_id (date_rules example_db)"
      "find (\<lambda>r. day_of (rule_date r) = day_of (rule_date ?u)) (date_rules s')
                   = Some (?r0\<lparr>rule_type := rule_type ?u,
                               rule_point_cost := rule_point_cost ?u,
                               rule_name := rule_name ?u\<rparr>)"
      by blast
    then show ?thesis by (intro exI [of _ s']) (simp add: rs d)
  qed
  have 3: "SetSpecialDate 50 ?n example_db =
      (None, example_db\<lparr>date_rules := date_rules example_db @ [stored_rule 50 ?n]\<rparr>)"
  proof -
    have "valid_rule ?n
            \<and> (\<forall>r\<in>set (date_rules example_db). day_of (rule_date r) \<noteq> day_of (rule_date ?n))
            \<and> rule_id (stored_rule 50 ?n) \<notin> rule_id ` set (date_rules example_db)"
      using v(2) by (simp add: rs d st)
    with set_special_date_upsert [OF inv, of 50 ?n] show ?thesis by blast
  qed
  show ?thesis
    using inv 1 2 3 by (simp add: rs st)
qed

text \<open>
  C1. The claim asks that a day of the stay marked not available makes \<^verbatim>\<open>CreateBooking\<close>
  fail. The code does not do so: \<^verbatim>\<open>CreateBooking\<close> and \<^verbatim>\<open>CalculatePointCost\<close> only count
  overlapping bookings and never read the availability records, while the helper
  \<^verbatim>\<open>checkRoomAvailabilityForUser\<close> of the same service, which no function calls, reports
  the room as not available. Here room 1 is blocked on day 20447 and user 1 books that
  night: the helper answers false, yet the booking is stored, 3 points are debited and the
  deduction is recorded.
\<close>

theorem blocked_day_is_booked:
  "checkRoomAvailabilityForUser 1 1 (20447 * nsPerDay) (20448 * nsPerDay) blocked_db = Inr False
   \<and> CreateBooking (20440 * nsPerDay + 10 * nsPerHour) 100 101 102 1 1 1 (20447 * nsPerDay)
        (20448 * nsPerDay) blocked_db =
      (Inr \<lparr>booking_id = 100, b_user_id = 1, b_hotel_id = 1, b_room_id = 1,
            check_in = 20447 * nsPerDay + 14 * nsPerHour,
            check_out = 20448 * nsPerDay + 12 * nsPerHour, point_cost = 3,
            status = ''confirmed'', created_at = 20440 * nsPerDay + 10 * nsPerHour\<rparr>,
       blocked_db\<lparr>bookings :=
            [\<lparr>booking_id = 100, b_user_id = 1, b_hotel_id = 1, b_room_id = 1,
              check_in = 20447 * nsPerDay + 14 * nsPerHour,
              check_out = 20448 * nsPerDay + 12 * nsPerHour, point_cost = 3,
              status = ''confirmed'', created_at = 20440 * nsPerDay + 10 * nsPerHour\<rparr>],
          users :=
            [\<lparr>user_id = 1, point_balance = 7, role = ''user'',
              updated_at = 20440 * nsPerDay + 10 * nsPerHour\<rparr>,
             \<lparr>user_id = 2, point_balance = 0, role = ''admin'', updated_at = 0\<rparr>,
             \<lparr>user_id = 3, point_balance = 1, role = ''user'', updated_at = 0\<rparr>],
          point_transactions :=
            [\<lparr>tx_id = 102, tx_user_id = 1, amount = - 3, tx_type = ''booking_deduction'',
              reference = 100, tx_created_at = 20440 * nsPerDay + 10 * nsPerHour\<rparr>]\<rparr>)"
proof -
  have ex: "bookings blocked_db = []" "point_transactions blocked_db = []"
    "users blocked_db =
       [\<lparr>user_id = 1, point_balance = 10, role = ''user'', updated_at = 0\<rparr>,
        \<lparr>user_id = 2, point_balance = 0, role = ''admin'', updated_at = 0\<rparr>,
        \<lparr>user_id = 3, point_balance = 1, role = ''user'', updated_at = 0\<rparr>]"
    "date_rules blocked_db =
       [\<lparr>rule_id = 1, rule_date = 20447 * nsPerDay, rule_type = ''holiday'',
         rule_point_cost = 3, rule_name = ''Natal''\<rparr>]"
    "rooms blocked_db = [\<lparr>room_id = 1, room_hotel_id = 1\<rparr>]"
    "hotels blocked_db = [\<lparr>hotel_id = 1\<rparr>]"
    "room_availabilities blocked_db =
       [\<lparr>avail_id = 1, avail_room_id = 1, avail_date = 20447 * nsPerDay,
         available = False, user_ids = []\<rparr>]"
    by (simp_all add: blocked_db_def example_db_def)
  have helper: "checkRoomAvailabilityForUser 1 1 (20447 * nsPerDay) (20448 * nsPerDay)
      blocked_db = Inr False"
    by (simp add: checkRoomAvailabilityForUser_def CheckRoomAvailability_def
        FindRoomAvailabilityByDateRange_def ex at_hour_def end_of_day_def
        check_days.simps [of _ _ "20447 * nsPerDay"] isSameDay_def)
       (simp add: nsPerDay_def day_of_def)
  have h: "user_FindByID 1 blocked_db =
       Inr \<lparr>user_id = 1, point_balance = 10, role = ''user'', updated_at = 0\<rparr>"
    "hotel_FindByID 1 blocked_db = Inr \<lparr>hotel_id = 1\<rparr>"
    "FindRoomByID 1 blocked_db = Inr \<lparr>room_id = 1, room_hotel_id = 1\<rparr>"
    "day_of (20447 * nsPerDay) \<le> day_of (20448 * nsPerDay)"
    "\<not> at_hour (20447 * nsPerDay) 0 < AddDate (20440 * nsPerDay + 10 * nsPerHour) (- 1)"
    "CheckRoomAvailability 1 (at_hour (20447 * nsPerDay) 0) (at_hour (20448 * nsPerDay) 0)
       blocked_db = Inr True"
    by (simp_all add: user_FindByID_def hotel_FindByID_def FindRoomByID_def ex
        CheckRoomAvailability_def at_hour_def AddDate_def nsPerDay_def nsPerHour_def day_of_def)
  have c: "CalculatePointCost (20440 * nsPerDay + 10 * nsPerHour) 1 (20447 * nsPerDay)
      (20448 * nsPerDay) blocked_db = Inr 3"
    using CalculatePointCost_ok [OF h(4) h(5) h(3) h(6)]
    by (simp add: int_range_split spec_costForDate_def ex)
  have e: "at_hour (20447 * nsPerDay) 14 = 20447 * nsPerDay + 14 * nsPerHour"
    "at_hour (20448 * nsPerDay) 12 = 20448 * nsPerDay + 12 * nsPerHour"
    by (simp_all add: at_hour_def)
  have "CreateBooking (20440 * nsPerDay + 10 * nsPerHour) 100 101 102 1 1 1 (20447 * nsPerDay)
        (20448 * nsPerDay) blocked_db =
      (Inr \<lparr>booking_id = 100, b_user_id = 1, b_hotel_id = 1, b_room_id = 1,
            check_in = 20447 * nsPerDay + 14 * nsPerHour,
            check_out = 20448 * nsPerDay + 12 * nsPerHour, point_cost = 3,
            status = ''confirmed'', created_at = 20440 * nsPerDay + 10 * nsPerHour\<rparr>,
       blocked_db\<lparr>bookings :=
            [\<lparr>booking_id = 100, b_user_id = 1, b_hotel_id = 1, b_room_id = 1,
              check_in = 20447 * nsPerDay + 14 * nsPerHour,
              check_out = 20448 * nsPerDay + 12 * nsPerHour, point_cost = 3,
              status = ''confirmed'', created_at = 20440 * nsPerDay + 10 * nsPerHour\<rparr>],
          users :=
            [\<lparr>user_id = 1, point_balance = 7, role = ''user'',
              updated_at = 20440 * nsPerDay + 10 * nsPerHour\<rparr>,
             \<lparr>user_id = 2, point_balance = 0, role = ''admin'', updated_at = 0\<rparr>,
             \<lparr>user_id = 3, point_balance = 1, role = ''user'', updated_at = 0\<rparr>],
          point_transactions :=
            [\<lparr>tx_id = 102, tx_user_id = 1, amount = - 3, tx_type = ''booking_deduction'',
              reference = 100, tx_created_at = 20440 * nsPerDay + 10 * nsPerHour\<rparr>]\<rparr>)"
    using CreateBooking_success [OF h(1) h(2) h(3) _ c, of 100 102 101]
    by (simp add: e ex)
  with helper show ?thesis by simp
qed

text \<open>
  C2. The claim asks that a request whose check-in day is the check-out day of the only
  booking of the room is accepted. The store's overlap test is strict, and with the stored
  instants (check-out 12:00, check-in 14:00) it reports the room free; but
  \<^verbatim>\<open>CalculatePointCost\<close> moves the requested dates to midnight before it asks, and the
  stored check-out at 12:00 of that day then lies after the requested check-in. Here room 1
  is booked for the night of day 20446 and day 20447 is requested: \<^verbatim>\<open>CreateBooking\<close>
  fails with the room-unavailable error.
\<close>

theorem back_to_back_is_refused:
  "CheckRoomAvailability 1 (20447 * nsPerDay + 14 * nsPerHour) (20448 * nsPerDay + 12 * nsPerHour)
     booked_db = Inr True
   \<and> CheckRoomAvailability 1 (at_hour (20447 * nsPerDay) 0) (at_hour (20448 * nsPerDay) 0)
       booked_db = Inr False
   \<and> CalculatePointCost (20440 * nsPerDay + 10 * nsPerHour) 1 (20447 * nsPerDay)
       (20448 * nsPerDay) booked_db = Inl RoomNotAvailable
   \<and> CreateBooking (20440 * nsPerDay + 10 * nsPerHour) 100 101 102 3 1 1 (20447 * nsPerDay)
       (20448 * nsPerDay) booked_db = (Inl RoomNotAvailable, booked_db)"
proof -
  have ex: "bookings booked_db =
       [\<lparr>booking_id = 1, b_user_id = 1, b_hotel_id = 1, b_room_id = 1,
         check_in = 20446 * nsPerDay + 14 * nsPerHour,
         check_out = 20447 * nsPerDay + 12 * nsPerHour,
         point_cost = 1, status = ''confirmed'', created_at = 20440 * nsPerDay\<rparr>]"
    "users booked_db =
       [\<lparr>user_id = 1, point_balance = 10, role = ''user'', updated_at = 0\<rparr>,
        \<lparr>user_id = 2, point_balance = 0, role = ''admin'', updated_at = 0\<rparr>,
        \<lparr>user_id = 3, point_balance = 1, role = ''user'', updated_at = 0\<rparr>]"
    "rooms booked_db = [\<lparr>room_id = 1, room_hotel_id = 1\<rparr>]"
    "hotels booked_db = [\<lparr>hotel_id = 1\<rparr>]"
    by (simp_all add: booked_db_def example_db_def)
  have 1: "CheckRoomAvailability 1 (20447 * nsPerDay + 14 * nsPerHour)
      (20448 * nsPerDay + 12 * nsPerHour) booked_db = Inr True"
    by (simp add: CheckRoomAvailability_def ex nsPerDay_def nsPerHour_def)
  have 2: "CheckRoomAvailability 1 (at_hour (20447 * nsPerDay) 0) (at_hour (20448 * nsPerDay) 0)
       booked_db = Inr False"
    by (simp add: CheckRoomAvailability_def ex at_hour_def day_of_def nsPerDay_def nsPerHour_def)
  have 3: "CalculatePointCost (20440 * nsPerDay + 10 * nsPerHour) 1 (20447 * nsPerDay)
       (20448 * nsPerDay) booked_db = Inl RoomNotAvailable"
  proof -
    have g: "\<not> at_hour (20447 * nsPerDay) 0 > at_hour (20448 * nsPerDay) 0"
      "\<not> at_hour (20447 * nsPerDay) 0 < AddDate (20440 * nsPerDay + 10 * nsPerHour) (- 1)"
      by (simp_all add: at_hour_def AddDate_def day_of_def nsPerDay_def nsPerHour_def)
    have r: "FindRoomByID 1 booked_db = Inr \<lparr>room_id = 1, room_hotel_id = 1\<rparr>"
      by (simp add: FindRoomByID_def ex)
    show ?thesis
      unfolding CalculatePointCost_def Let_def by (simp only: g r 2 if_False sum.case not_False_eq_True if_True)
  qed
  have 4: "CreateBooking (20440 * nsPerDay + 10 * nsPerHour) 100 101 102 3 1 1
       (20447 * nsPerDay) (20448 * nsPerDay) booked_db = (Inl RoomNotAvailable, booked_db)"
    using 3
    by (simp add: CreateBooking_def Let_def CalculatePointCost_normalized user_FindByID_def
        hotel_FindByID_def FindRoomByID_def ex)
  show ?thesis using 1 2 3 4 by blast
qed

end
